theory Spec2Isabelle
  imports Main
begin

section \<open>The asset loader of \<^verbatim>\<open>scripts/asset-loader.js\<close>\<close>

text \<open>
  The class \<^verbatim>\<open>AssetLoader\<close> fetches a configuration document and style sheets over
  the network, retries with a growing delay, falls back to a second address and keeps
  what it fetched in a map with a time stamp. The embedding makes every effect of the
  class explicit:
  \<^item> the fields of the object are a record that each method takes and returns;
  \<^item> a \<^verbatim>\<open>throw\<close> and a rejected promise are the \<open>Inl\<close> of a sum type;
  \<^item> \<^verbatim>\<open>fetch\<close>, \<^verbatim>\<open>setTimeout\<close> and \<^verbatim>\<open>Date.now\<close> belong to the host: the calls of the
    first two are appended to a history of events, and what the host answers is read
    from an environment that sees the history so far.
  JavaScript numbers are doubles. The model holds the finite ones with an integer value,
  as \<open>int\<close>; comparison is exact on them, adding 1 is exact below \<open>2 ^ 53\<close>, and the one
  product of the source (line 157) is rounded as the product of two doubles is.
  The configuration is whatever JSON value the body of the response decodes to. A JSON
  object is held as the record of the fields that the code reads, each of which may be
  absent (\<open>None\<close> for \<^verbatim>\<open>undefined\<close>); objects in which such a field has another kind
  of value than the code expects are outside the model. The output on the console is not
  modelled.
\<close>

subsection \<open>Errors\<close>

text \<open>
  The source throws \<^verbatim>\<open>new Error(message)\<close> itself; the host throws a
  \<^verbatim>\<open>TypeError\<close> when \<^verbatim>\<open>fetch\<close> fails or a property of \<^verbatim>\<open>undefined\<close> or \<^verbatim>\<open>null\<close> is
  read, and a \<^verbatim>\<open>SyntaxError\<close> when a body is not JSON.
\<close>

datatype js_error = Error string | TypeError | SyntaxError

subsection \<open>JSON values and the configuration document\<close>

record css_source =
  github_raw :: "string option"
  github_pages :: "string option"
  fallback :: "string option"

record assets =
  css :: "(string \<rightharpoonup> css_source) option"

record cdn =
  primary_host :: "string option"
  cache_duration :: "int option"
  retry_attempts :: "int option"
  retry_delay :: "int option"

record config =
  version :: "string option"
  assets :: "assets option"
  cdn_config :: "cdn option"
  update_check_url :: "string option"

text \<open>What \<^verbatim>\<open>response.json()\<close> can give, and so what \<^verbatim>\<open>this.config\<close> can hold.\<close>

datatype json = JNull | JBool bool | JNum int | JStr string | JArr "json list" | JObj config

text \<open>\<^verbatim>\<open>null\<close>, \<^verbatim>\<open>false\<close>, \<^verbatim>\<open>0\<close> and the empty string are falsy; arrays and objects are
  truthy.\<close>

fun truthy :: "json \<Rightarrow> bool" where
  "truthy JNull = False"
| "truthy (JBool b) = b"
| "truthy (JNum n) = (n \<noteq> 0)"
| "truthy (JStr s) = (s \<noteq> [])"
| "truthy (JArr xs) = True"
| "truthy (JObj c) = True"

text \<open>
  The fields that the code reads, of a value other than \<^verbatim>\<open>null\<close>: those of an object;
  a boolean, a number, a string and an array have none of them, and reading one gives
  \<^verbatim>\<open>undefined\<close>. (Reading a field of \<^verbatim>\<open>null\<close> throws; the callers test for it first.)
\<close>

definition no_fields :: config where
  "no_fields = \<lparr>version = None, assets = None, cdn_config = None, update_check_url = None\<rparr>"

fun fields_of :: "json \<Rightarrow> config" where
  "fields_of (JObj c) = c"
| "fields_of v = no_fields"

subsection \<open>The host: network, timer and clock\<close>

text \<open>
  What \<^verbatim>\<open>await fetch(url)\<close> gives: a rejection, or a response with its status, its
  body as text and its body as JSON (\<open>None\<close> when \<^verbatim>\<open>response.json()\<close> rejects). A
  body that cannot be read rejects inside the same \<^verbatim>\<open>try\<close> block as \<^verbatim>\<open>fetch\<close> does
  and is counted as \<open>NetError\<close>.
\<close>

datatype outcome = NetError | Response nat string "json option"

text \<open>\<^verbatim>\<open>response.ok\<close>: the status is in the range 200 to 299.\<close>

definition ok :: "nat \<Rightarrow> bool" where
  "ok st = (200 \<le> st \<and> st \<le> 299)"

text \<open>
  A request, and a call of \<^verbatim>\<open>setTimeout\<close> with a finite number of milliseconds or
  with an infinite one (\<open>True\<close> for the positive one).
\<close>

datatype event = Fetch string | Sleep int | SleepInf bool

type_synonym history = "event list"

record env =
  respond :: "history \<Rightarrow> string \<Rightarrow> outcome"
  now :: "history \<Rightarrow> int"

subsection \<open>The product of two numbers\<close>

text \<open>
  The product of two doubles is the double nearest to the exact product, the one with
  the even significand when two are equally near, and an infinity when that double
  would be \<open>2 ^ 1024\<close> or more in magnitude. A double holds 53 significant bits:
  \<open>drop_bits a\<close> is the number of low bits of \<open>a\<close> that do not fit.
\<close>

function drop_bits :: "nat \<Rightarrow> nat" where
  "drop_bits a = (if a < 2 ^ 53 then 0 else Suc (drop_bits (a div 2)))"
  by pat_completeness auto
termination
  by (relation "measure (\<lambda>a. a)") auto

declare drop_bits.simps [simp del]

definition round_double :: "nat \<Rightarrow> nat" where
  "round_double a =
     (let e = drop_bits a; q = a div 2 ^ e; r = a mod 2 ^ e in
      if 2 * r < 2 ^ e then q * 2 ^ e
      else if 2 ^ e < 2 * r then (q + 1) * 2 ^ e
      else if even q then q * 2 ^ e
      else (q + 1) * 2 ^ e)"

definition js_times :: "int \<Rightarrow> int \<Rightarrow> int" where
  "js_times a b = sgn (a * b) * int (round_double (nat \<bar>a * b\<bar>))"

text \<open>\<^verbatim>\<open>setTimeout(resolve, delay * k)\<close>.\<close>

definition wait :: "int \<Rightarrow> int \<Rightarrow> event" where
  "wait d k =
     (let p = js_times d k in if \<bar>p\<bar> < 2 ^ 1024 then Sleep p else SleepInf (0 < p))"

subsection \<open>The object\<close>

record cache_entry =
  content :: string
  timestamp :: int

record loader =
  config :: json
  cache :: "string \<rightharpoonup> cache_entry"
  retryAttempts :: int
  retryDelay :: int

text \<open>The constructor (lines 5 to 10).\<close>

definition AssetLoader :: loader where
  "AssetLoader = \<lparr>config = JNull, cache = Map.empty, retryAttempts = 3, retryDelay = 1000\<rparr>"

subsection \<open>Truthiness of fields\<close>

text \<open>
  \<^verbatim>\<open>undefined\<close>, \<^verbatim>\<open>null\<close>, \<^verbatim>\<open>0\<close> and the empty string are falsy; \<^verbatim>\<open>a || b\<close> is
  \<open>a\<close> when \<open>a\<close> is truthy and \<open>b\<close> otherwise.
\<close>

definition truthy_num :: "int option \<Rightarrow> bool" where
  "truthy_num v = (case v of None \<Rightarrow> False | Some n \<Rightarrow> n \<noteq> 0)"

definition truthy_str :: "string option \<Rightarrow> bool" where
  "truthy_str v = (case v of None \<Rightarrow> False | Some s \<Rightarrow> s \<noteq> [])"

definition or_num :: "int option \<Rightarrow> int option \<Rightarrow> int option" where
  "or_num a b = (if truthy_num a then a else b)"

definition or_str :: "string option \<Rightarrow> string option \<Rightarrow> string option" where
  "or_str a b = (if truthy_str a then a else b)"

text \<open>A string handed to \<^verbatim>\<open>fetch\<close>; \<^verbatim>\<open>undefined\<close> is converted to its name.\<close>

definition url_text :: "string option \<Rightarrow> string" where
  "url_text u = (case u of None \<Rightarrow> ''undefined'' | Some s \<Rightarrow> s)"

subsection \<open>\<^verbatim>\<open>loadConfig\<close> (lines 13 to 44)\<close>

definition fallback_config :: config where
  "fallback_config =
     \<lparr>version = Some ''1.0.0'',
      assets = Some \<lparr>css = Some [''popup'' \<mapsto>
        \<lparr>github_raw = Some ''https://raw.githubusercontent.com/pokessniper/pokesnipe-assets/main/styles/popup.css'',
         github_pages = None,
         fallback = Some ''inline''\<rparr>]\<rparr>,
      cdn_config = Some \<lparr>primary_host = Some ''github_raw'', cache_duration = Some 300000,
        retry_attempts = Some 3, retry_delay = Some 1000\<rparr>,
      update_check_url = None\<rparr>"

text \<open>
  The \<^verbatim>\<open>try\<close> block of \<^verbatim>\<open>loadConfig\<close>: \<open>Inl e\<close> when it throws \<open>e\<close>, \<open>Inr (Some v)\<close>
  when it assigns the decoded value \<open>v\<close>, unchecked, and returns it, \<open>Inr None\<close> when it
  runs to its end.
\<close>

definition loadConfig_try :: "outcome \<Rightarrow> js_error + json option" where
  "loadConfig_try r =
     (case r of
        NetError \<Rightarrow> Inl TypeError
      | Response st txt js \<Rightarrow>
          if ok st then (case js of None \<Rightarrow> Inl SyntaxError | Some v \<Rightarrow> Inr (Some v))
          else Inr None)"

definition loadConfig ::
  "env \<Rightarrow> string \<Rightarrow> loader \<Rightarrow> history \<Rightarrow> (js_error + json) \<times> loader \<times> history" where
  "loadConfig E configUrl L h =
     (let h' = h @ [Fetch configUrl] in
      case loadConfig_try (respond E h configUrl) of
        Inr (Some v) \<Rightarrow> (Inr v, L\<lparr>config := v\<rparr>, h')
      | Inr None \<Rightarrow> (Inr (JObj fallback_config), L\<lparr>config := JObj fallback_config\<rparr>, h')
      | Inl e \<Rightarrow> (Inr (JObj fallback_config), L\<lparr>config := JObj fallback_config\<rparr>, h'))"

subsection \<open>\<^verbatim>\<open>fetchWithRetry\<close> (lines 137 to 162)\<close>

text \<open>\<^verbatim>\<open>this.config?.cdn_config?.retry_attempts\<close> and \<^verbatim>\<open>...?.retry_delay\<close>: \<^verbatim>\<open>undefined\<close>
  when the configuration is \<^verbatim>\<open>null\<close>, as when it has no such field.\<close>

definition config_retry_attempts :: "loader \<Rightarrow> int option" where
  "config_retry_attempts L =
     (case cdn_config (fields_of (config L)) of None \<Rightarrow> None | Some d \<Rightarrow> retry_attempts d)"

definition config_retry_delay :: "loader \<Rightarrow> int option" where
  "config_retry_delay L =
     (case cdn_config (fields_of (config L)) of None \<Rightarrow> None | Some d \<Rightarrow> retry_delay d)"

text \<open>Line 138; the parameter \<open>attempts\<close> is \<open>None\<close> for \<^verbatim>\<open>null\<close>, its default.\<close>

definition maxAttempts :: "loader \<Rightarrow> int option \<Rightarrow> int" where
  "maxAttempts L attempts =
     (case or_num (or_num attempts (config_retry_attempts L)) (Some (retryAttempts L)) of
        Some n \<Rightarrow> n | None \<Rightarrow> retryAttempts L)"

text \<open>Line 139.\<close>

definition delay :: "loader \<Rightarrow> int" where
  "delay L =
     (case or_num (config_retry_delay L) (Some (retryDelay L)) of
        Some n \<Rightarrow> n | None \<Rightarrow> retryDelay L)"

text \<open>
  The \<^verbatim>\<open>try\<close> block of one attempt (lines 142 to 150): \<open>Inl e\<close> when it throws,
  \<open>Inr (Some t)\<close> when it returns the text \<open>t\<close>, \<open>Inr None\<close> when it runs to its end.
\<close>

definition attempt :: "env \<Rightarrow> string \<Rightarrow> history \<Rightarrow> js_error + string option" where
  "attempt E url h =
     (case respond E h url of
        NetError \<Rightarrow> Inl TypeError
      | Response st txt js \<Rightarrow> if ok st then Inr (Some txt) else Inr None)"

text \<open>Lines 155 to 158: the wait after attempt \<open>i\<close>, except after the last one.\<close>

definition backoff :: "int \<Rightarrow> int \<Rightarrow> int \<Rightarrow> history \<Rightarrow> history" where
  "backoff maxA d i h = (if i < maxA - 1 then h @ [wait d (i + 1)] else h)"

text \<open>
  The \<^verbatim>\<open>for\<close> loop from index \<open>i\<close> on. The \<^verbatim>\<open>catch\<close> clause swallows what the
  \<^verbatim>\<open>try\<close> block throws; the function returns \<^verbatim>\<open>null\<close> (\<open>None\<close>) after the loop.
\<close>

function fetch_loop ::
  "env \<Rightarrow> string \<Rightarrow> int \<Rightarrow> int \<Rightarrow> int \<Rightarrow> history \<Rightarrow> (js_error + string option) \<times> history" where
  "fetch_loop E url maxA d i h =
     (if i < maxA then
        (case attempt E url h of
           Inr (Some t) \<Rightarrow> (Inr (Some t), h @ [Fetch url])
         | Inr None \<Rightarrow> fetch_loop E url maxA d (i + 1) (backoff maxA d i (h @ [Fetch url]))
         | Inl e \<Rightarrow> fetch_loop E url maxA d (i + 1) (backoff maxA d i (h @ [Fetch url])))
      else (Inr None, h))"
  by pat_completeness auto
termination
  by (relation "measure (\<lambda>(E, url, maxA, d, i, h). nat (maxA - i))") auto

declare fetch_loop.simps [simp del]

definition fetchWithRetry ::
  "env \<Rightarrow> loader \<Rightarrow> string option \<Rightarrow> int option \<Rightarrow> history \<Rightarrow>
     (js_error + string option) \<times> history" where
  "fetchWithRetry E L url attempts h =
     fetch_loop E (url_text url) (maxAttempts L attempts) (delay L) 0 h"

subsection \<open>\<^verbatim>\<open>loadCSS\<close> (lines 47 to 89)\<close>

text \<open>
  The names that every object inherits from \<^verbatim>\<open>Object.prototype\<close>. Each of them is a
  function or an object, so truthy, and has neither a \<^verbatim>\<open>github_raw\<close> nor a
  \<^verbatim>\<open>github_pages\<close>: where the code reads its sources it is like an entry without any.
\<close>

definition object_prototype :: "string list" where
  "object_prototype =
     [''constructor'', ''__defineGetter__'', ''__defineSetter__'', ''hasOwnProperty'',
      ''__lookupGetter__'', ''__lookupSetter__'', ''isPrototypeOf'', ''propertyIsEnumerable'',
      ''toString'', ''valueOf'', ''__proto__'', ''toLocaleString'']"

definition inherited_member :: css_source where
  "inherited_member = \<lparr>github_raw = None, github_pages = None, fallback = None\<rparr>"

text \<open>
  Line 52, \<^verbatim>\<open>this.config.assets.css[assetName]\<close>: reading \<^verbatim>\<open>css\<close> of a missing
  \<^verbatim>\<open>assets\<close>, or an entry of a missing \<^verbatim>\<open>css\<close>, throws; the entry is the one of
  that name in the object, or else the member of that name of its prototype, or else
  \<^verbatim>\<open>undefined\<close>.
\<close>

definition css_entry :: "config \<Rightarrow> string \<Rightarrow> js_error + css_source option" where
  "css_entry c assetName =
     (case assets c of
        None \<Rightarrow> Inl TypeError
      | Some a \<Rightarrow>
          (case css a of
             None \<Rightarrow> Inl TypeError
           | Some entries \<Rightarrow>
               (case entries assetName of
                  Some cssConfig \<Rightarrow> Inr (Some cssConfig)
                | None \<Rightarrow>
                    if assetName \<in> set object_prototype then Inr (Some inherited_member)
                    else Inr None)))"

text \<open>
  Lines 59 to 65: \<open>Inr (Some s)\<close> when the method returns the cached \<open>s\<close>, \<open>Inr None\<close>
  when it goes on to the network. Reading \<^verbatim>\<open>cache_duration\<close> of a missing
  \<^verbatim>\<open>cdn_config\<close> throws; a comparison with \<^verbatim>\<open>undefined\<close> is false.
\<close>

definition cache_check ::
  "env \<Rightarrow> loader \<Rightarrow> config \<Rightarrow> string \<Rightarrow> history \<Rightarrow> js_error + string option" where
  "cache_check E L c cacheKey h =
     (case cache L cacheKey of
        None \<Rightarrow> Inr None
      | Some cached \<Rightarrow>
          (case cdn_config c of
             None \<Rightarrow> Inl TypeError
           | Some d \<Rightarrow>
               (case cache_duration d of
                  None \<Rightarrow> Inr None
                | Some dur \<Rightarrow>
                    if now E h - timestamp cached < dur then Inr (Some (content cached))
                    else Inr None)))"

text \<open>Lines 67 to 76: the primary address, and the second one when the first gave nothing.\<close>

definition fetch_sources ::
  "env \<Rightarrow> loader \<Rightarrow> css_source \<Rightarrow> history \<Rightarrow> (js_error + string option) \<times> history" where
  "fetch_sources E L cssConfig h =
     (let primaryUrl = or_str (github_raw cssConfig) (github_pages cssConfig) in
      case fetchWithRetry E L primaryUrl None h of
        (Inl e, h1) \<Rightarrow> (Inl e, h1)
      | (Inr cssContent, h1) \<Rightarrow>
          if \<not> truthy_str cssContent \<and> truthy_str (github_pages cssConfig)
               \<and> truthy_str (github_raw cssConfig)
          then
            (let fallbackUrl =
                   (if github_pages cssConfig = primaryUrl then github_raw cssConfig
                    else github_pages cssConfig)
             in fetchWithRetry E L fallbackUrl None h1)
          else (Inr cssContent, h1))"

definition loadCSS ::
  "env \<Rightarrow> string \<Rightarrow> loader \<Rightarrow> history \<Rightarrow> (js_error + string) \<times> loader \<times> history" where
  "loadCSS E assetName L h =
     (if \<not> truthy (config L) then
        (Inl (Error ''Config not loaded. Call loadConfig() first.''), L, h)
      else
        (let c = fields_of (config L) in
         case css_entry c assetName of
           Inl e \<Rightarrow> (Inl e, L, h)
         | Inr None \<Rightarrow>
             (Inl (Error (''CSS asset '' @ [CHR 0x27] @ assetName @ [CHR 0x27]
                    @ '' not found in config'')), L, h)
         | Inr (Some cssConfig) \<Rightarrow>
             (let cacheKey = ''css_'' @ assetName in
              case cache_check E L c cacheKey h of
                Inl e \<Rightarrow> (Inl e, L, h)
              | Inr (Some s) \<Rightarrow> (Inr s, L, h)
              | Inr None \<Rightarrow>
                  (case fetch_sources E L cssConfig h of
                     (Inl e, h2) \<Rightarrow> (Inl e, L, h2)
                   | (Inr cssContent, h2) \<Rightarrow>
                       (let failed = (Inl (Error (''Failed to load CSS: '' @ assetName)), L, h2)
                        in case cssContent of
                             None \<Rightarrow> failed
                           | Some s \<Rightarrow>
                               if s = [] then failed
                               else
                                 (Inr s,
                                  L\<lparr>cache := (cache L)(cacheKey \<mapsto>
                                       \<lparr>content = s, timestamp = now E h2\<rparr>)\<rparr>,
                                  h2))))))"

subsection \<open>\<^verbatim>\<open>checkForUpdates\<close> (lines 165 to 182) and \<^verbatim>\<open>clearCache\<close> (lines 185 to 188)\<close>



definition clearCache :: "loader \<Rightarrow> loader" where
  "clearCache L = L\<lparr>cache := Map.empty\<rparr>"

subsection \<open>Vocabulary of the properties\<close>

text \<open>A response with a status from 200 to 299, and the text of its body.\<close>

definition success :: "outcome \<Rightarrow> bool" where
  "success r = (case r of NetError \<Rightarrow> False | Response st txt js \<Rightarrow> ok st)"

definition body_text :: "outcome \<Rightarrow> string" where
  "body_text r = (case r of NetError \<Rightarrow> [] | Response st txt js \<Rightarrow> txt)"

text \<open>The network requests and the waits of a history, in their order.\<close>

fun fetches :: "history \<Rightarrow> string list" where
  "fetches [] = []"
| "fetches (Fetch u # es) = u # fetches es"
| "fetches (Sleep n # es) = fetches es"
| "fetches (SleepInf b # es) = fetches es"


text \<open>
  What the specification says of the retry procedure, with the product as the code
  computes it: \<open>failed_attempts u d j\<close> are the events of the attempts \<open>0\<close> to \<open>j - 1\<close>
  when each of them fails and is not the last one: a request, then a wait of
  \<open>d * (i + 1)\<close>. \<open>attempts_trace u d k\<close> are the events of \<open>k\<close> attempts of which the
  last one is not followed by a wait.
\<close>

definition failed_attempts :: "string \<Rightarrow> int \<Rightarrow> nat \<Rightarrow> event list" where
  "failed_attempts u d j = concat (map (\<lambda>i. [Fetch u, wait d (int i + 1)]) [0..<j])"

definition attempts_trace :: "string \<Rightarrow> int \<Rightarrow> nat \<Rightarrow> event list" where
  "attempts_trace u d k = (if k = 0 then [] else failed_attempts u d (k - 1) @ [Fetch u])"

text \<open>The same events counted from attempt \<open>i\<close> on, for the induction over the loop.\<close>

fun retry_prefix :: "string \<Rightarrow> int \<Rightarrow> int \<Rightarrow> nat \<Rightarrow> event list" where
  "retry_prefix url d i 0 = []"
| "retry_prefix url d i (Suc k) =
     Fetch url # wait d (i + 1) # retry_prefix url d (i + 1) k"

subsection \<open>Example hosts and objects\<close>

text \<open>A host whose network is down, one that answers every request with the status
  \<open>st\<close> and the body \<open>t\<close>, and one where only the address \<open>u\<close> answers. The clock of
  each shows \<open>T\<close>.\<close>

definition host_down :: "int \<Rightarrow> env" where
  "host_down T = \<lparr>respond = (\<lambda>h u. NetError), now = (\<lambda>h. T)\<rparr>"

definition host_answering :: "nat \<Rightarrow> string \<Rightarrow> json option \<Rightarrow> int \<Rightarrow> env" where
  "host_answering st t js T = \<lparr>respond = (\<lambda>h u. Response st t js), now = (\<lambda>h. T)\<rparr>"

definition host_only :: "string \<Rightarrow> string \<Rightarrow> int \<Rightarrow> env" where
  "host_only u t T =
     \<lparr>respond = (\<lambda>h v. if v = u then Response 200 t None else Response 404 [] None),
      now = (\<lambda>h. T)\<rparr>"

text \<open>A host that fails the first request and answers the later ones.\<close>

definition host_flaky :: "string \<Rightarrow> int \<Rightarrow> env" where
  "host_flaky t T =
     \<lparr>respond = (\<lambda>h u. if h = [] then Response 503 [] None else Response 200 t None),
      now = (\<lambda>h. T)\<rparr>"

text \<open>An object after \<^verbatim>\<open>loadConfig\<close> fell back to the embedded configuration.\<close>

definition default_loader :: loader where
  "default_loader = AssetLoader\<lparr>config := JObj fallback_config\<rparr>"

text \<open>A configuration with one style sheet \<open>sheet\<close> that has the two sources \<open>a\<close> and
  \<open>b\<close>, and an object that holds it.\<close>

definition two_source_config :: "string option \<Rightarrow> string option \<Rightarrow> int option \<Rightarrow> config" where
  "two_source_config a b n =
     \<lparr>version = Some ''2.0.0'',
      assets = Some \<lparr>css = Some [''sheet'' \<mapsto>
        \<lparr>github_raw = a, github_pages = b, fallback = None\<rparr>]\<rparr>,
      cdn_config = Some \<lparr>primary_host = Some ''github_raw'', cache_duration = Some 300000,
        retry_attempts = n, retry_delay = Some 1000\<rparr>,
      update_check_url = Some ''https://example.org/config.json''\<rparr>"

definition two_source_loader :: "string option \<Rightarrow> string option \<Rightarrow> int option \<Rightarrow> loader" where
  "two_source_loader a b n = AssetLoader\<lparr>config := JObj (two_source_config a b n)\<rparr>"

text \<open>The same object with \<open>s\<close> cached for \<open>sheet\<close> at the time \<open>t\<close>.\<close>

definition cached_loader ::
  "string option \<Rightarrow> string option \<Rightarrow> int option \<Rightarrow> string \<Rightarrow> int \<Rightarrow> loader" where
  "cached_loader a b n s t =
     (two_source_loader a b n)\<lparr>cache := [''css_sheet'' \<mapsto> \<lparr>content = s, timestamp = t\<rparr>]\<rparr>"


section \<open>Properties\<close>

subsection \<open>The retry loop\<close>

lemma attempt_failure:
  "\<not> success (respond E h url) \<Longrightarrow> attempt E url h = Inl TypeError \<or> attempt E url h = Inr None"
  by (auto simp: attempt_def success_def split: outcome.splits)

lemma attempt_success:
  "success (respond E h url) \<Longrightarrow> attempt E url h = Inr (Some (body_text (respond E h url)))"
  by (auto simp: attempt_def success_def body_text_def split: outcome.splits)

lemma fetch_loop_failed_step:
  assumes "i < maxA" "\<not> success (respond E h url)"
  shows "fetch_loop E url maxA d i h =
           fetch_loop E url maxA d (i + 1) (backoff maxA d i (h @ [Fetch url]))"
  using assms attempt_failure [OF assms(2)]
  by (subst fetch_loop.simps) auto

lemma fetch_loop_success_step:
  assumes "i < maxA" "success (respond E h url)"
  shows "fetch_loop E url maxA d i h = (Inr (Some (body_text (respond E h url))), h @ [Fetch url])"
  using assms attempt_success [OF assms(2)]
  by (subst fetch_loop.simps) auto

lemma fetch_loop_done: "\<not> i < maxA \<Longrightarrow> fetch_loop E url maxA d i h = (Inr None, h)"
  by (subst fetch_loop.simps) simp

lemma fetch_loop_skip:
  "\<forall>j<k. \<not> success (respond E (h @ retry_prefix url d i j) url) \<Longrightarrow> i + int k < maxA \<Longrightarrow>
     fetch_loop E url maxA d i h = fetch_loop E url maxA d (i + int k) (h @ retry_prefix url d i k)"
proof (induction k arbitrary: i h)
  case 0
  then show ?case by simp
next
  case (Suc k)
  have f0: "\<not> success (respond E h url)"
    using Suc.prems(1) [rule_format, of 0] by simp
  have lt: "i < maxA" "i < maxA - 1"
    using Suc.prems(2) by simp_all
  have step: "fetch_loop E url maxA d i h =
      fetch_loop E url maxA d (i + 1) (h @ [Fetch url, wait d (i + 1)])"
    using fetch_loop_failed_step [OF lt(1) f0] lt(2) by (simp add: backoff_def)
  have rest: "\<forall>j<k. \<not> success (respond E ((h @ [Fetch url, wait d (i + 1)]) @ retry_prefix url d (i + 1) j) url)"
  proof (intro allI impI)
    fix j assume "j < k"
    then have "\<not> success (respond E (h @ retry_prefix url d i (Suc j)) url)"
      using Suc.prems(1) [rule_format, of "Suc j"] by blast
    then show "\<not> success (respond E ((h @ [Fetch url, wait d (i + 1)]) @ retry_prefix url d (i + 1) j) url)"
      by simp
  qed
  have "fetch_loop E url maxA d (i + 1) (h @ [Fetch url, wait d (i + 1)]) =
      fetch_loop E url maxA d (i + 1 + int k) ((h @ [Fetch url, wait d (i + 1)]) @ retry_prefix url d (i + 1) k)"
    using Suc.IH [OF rest] Suc.prems(2) by simp
  then have "fetch_loop E url maxA d (i + 1) (h @ [Fetch url, wait d (i + 1)]) =
      fetch_loop E url maxA d (i + 1 + int k) (h @ retry_prefix url d i (Suc k))"
    by simp
  moreover have "i + 1 + int k = i + int (Suc k)" by simp
  ultimately show ?case using step by simp
qed

lemma fetch_loop_first_success:
  assumes "\<forall>j'<j. \<not> success (respond E (h @ retry_prefix url d i j') url)"
    and "success (respond E (h @ retry_prefix url d i j) url)"
    and "i + int j < maxA"
  shows "fetch_loop E url maxA d i h =
           (Inr (Some (body_text (respond E (h @ retry_prefix url d i j) url))),
            h @ retry_prefix url d i j @ [Fetch url])"
  using fetch_loop_skip [OF assms(1) assms(3)] fetch_loop_success_step [OF assms(3) assms(2)]
  by simp

lemma fetch_loop_all_fail:
  assumes "\<forall>j<Suc k. \<not> success (respond E (h @ retry_prefix url d i j) url)"
    and "i + int (Suc k) = maxA"
  shows "fetch_loop E url maxA d i h = (Inr None, h @ retry_prefix url d i k @ [Fetch url])"
proof -
  have a: "\<forall>j<k. \<not> success (respond E (h @ retry_prefix url d i j) url)"
    using assms(1) by simp
  have b: "i + int k < maxA" using assms(2) by simp
  have c: "\<not> success (respond E (h @ retry_prefix url d i k) url)"
    using assms(1) by simp
  have "fetch_loop E url maxA d (i + int k) (h @ retry_prefix url d i k) =
        fetch_loop E url maxA d (i + int k + 1) (backoff maxA d (i + int k) ((h @ retry_prefix url d i k) @ [Fetch url]))"
    by (rule fetch_loop_failed_step [OF b c])
  also have "\<dots> = (Inr None, h @ retry_prefix url d i k @ [Fetch url])"
    using assms(2) by (simp add: backoff_def fetch_loop_done)
  finally show ?thesis using fetch_loop_skip [OF a b] by simp
qed


lemma retry_prefix_concat:
  "retry_prefix u d i j = concat (map (\<lambda>m. [Fetch u, wait d (i + int m + 1)]) [0..<j])"
proof (induction j arbitrary: i)
  case 0
  then show ?case by simp
next
  case (Suc j)
  have "[0..<Suc j] = 0 # map Suc [0..<j]"
    by (simp add: upt_conv_Cons map_Suc_upt del: upt_Suc)
  then have "concat (map (\<lambda>m. [Fetch u, wait d (i + int m + 1)]) [0..<Suc j]) =
      Fetch u # wait d (i + 1) #
        concat (map (\<lambda>m. [Fetch u, wait d (i + 1 + int m + 1)]) [0..<j])"
    by (simp add: comp_def add.assoc add.left_commute del: upt_Suc)
  then show ?case using Suc.IH [of "i + 1"] by simp
qed

lemma retry_prefix_failed_attempts: "retry_prefix u d 0 j = failed_attempts u d j"
  by (simp add: retry_prefix_concat failed_attempts_def)

lemma fetch_with_retry_first_success:
  assumes "\<forall>j'<j. \<not> success (respond E (h @ failed_attempts (url_text url) (delay L) j') (url_text url))"
    and "success (respond E (h @ failed_attempts (url_text url) (delay L) j) (url_text url))"
    and "int j < maxAttempts L a"
  shows "fetchWithRetry E L url a h =
           (Inr (Some (body_text (respond E (h @ failed_attempts (url_text url) (delay L) j) (url_text url)))),
            h @ attempts_trace (url_text url) (delay L) (Suc j))"
  using fetch_loop_first_success [of j E h "url_text url" "delay L" 0 "maxAttempts L a"] assms
  by (simp add: fetchWithRetry_def retry_prefix_failed_attempts attempts_trace_def)

lemma fetch_with_retry_all_fail:
  assumes "\<forall>j. int j < maxAttempts L a \<longrightarrow>
             \<not> success (respond E (h @ failed_attempts (url_text url) (delay L) j) (url_text url))"
  shows "fetchWithRetry E L url a h =
           (Inr None, h @ attempts_trace (url_text url) (delay L) (nat (maxAttempts L a)))"
proof (cases "maxAttempts L a \<le> 0")
  case True
  then show ?thesis
    by (simp add: fetchWithRetry_def fetch_loop_done attempts_trace_def)
next
  case False
  then obtain k where k: "maxAttempts L a = int (Suc k)"
    by (metis Suc_pred' nat_0_iff nat_eq_iff2 not_gr_zero of_nat_0_le_iff linorder_not_le zero_less_imp_eq_int)
  have "\<forall>j<Suc k. \<not> success (respond E (h @ retry_prefix (url_text url) (delay L) 0 j) (url_text url))"
    using assms k by (simp add: retry_prefix_failed_attempts)
  then have "fetch_loop E (url_text url) (maxAttempts L a) (delay L) 0 h =
      (Inr None, h @ retry_prefix (url_text url) (delay L) 0 k @ [Fetch (url_text url)])"
    using fetch_loop_all_fail [of k E h "url_text url" "delay L" 0 "maxAttempts L a"] k by simp
  moreover have "nat (maxAttempts L a) = Suc k" using k by simp
  ultimately show ?thesis
    by (simp add: fetchWithRetry_def retry_prefix_failed_attempts attempts_trace_def)
qed

lemma fetch_with_retry_none: "maxAttempts L a \<le> 0 \<Longrightarrow> fetchWithRetry E L url a h = (Inr None, h)"
  by (simp add: fetchWithRetry_def fetch_loop_done)

text \<open>Every run is the one or the other.\<close>

lemma fetch_with_retry_cases:
  obtains (found) j where "int j < maxAttempts L a"
      and "\<forall>j'<j. \<not> success (respond E (h @ failed_attempts (url_text url) (delay L) j') (url_text url))"
      and "success (respond E (h @ failed_attempts (url_text url) (delay L) j) (url_text url))"
  | (exhausted) "\<forall>j. int j < maxAttempts L a \<longrightarrow>
             \<not> success (respond E (h @ failed_attempts (url_text url) (delay L) j) (url_text url))"
proof (cases "\<exists>j. int j < maxAttempts L a \<and>
    success (respond E (h @ failed_attempts (url_text url) (delay L) j) (url_text url))")
  case True
  define P where "P j \<longleftrightarrow> int j < maxAttempts L a \<and>
    success (respond E (h @ failed_attempts (url_text url) (delay L) j) (url_text url))" for j
  from True have ex: "\<exists>j. P j" by (simp add: P_def)
  define m where "m = (LEAST j. P j)"
  have Pm: "P m" unfolding m_def using ex by (metis LeastI)
  have least: "\<And>j'. j' < m \<Longrightarrow> \<not> P j'" unfolding m_def by (rule not_less_Least)
  have "\<forall>j'<m. \<not> success (respond E (h @ failed_attempts (url_text url) (delay L) j') (url_text url))"
  proof (intro allI impI)
    fix j' assume lt: "j' < m"
    then have "int j' < maxAttempts L a" using Pm by (simp add: P_def)
    with least [OF lt] show "\<not> success (respond E (h @ failed_attempts (url_text url) (delay L) j') (url_text url))"
      by (simp add: P_def)
  qed
  with Pm show ?thesis using found [of m] by (simp add: P_def)
next
  case False
  then show ?thesis using exhausted by blast
qed

lemma fetch_with_retry_no_throw: "\<exists>r. fst (fetchWithRetry E L url a h) = Inr r"
proof (cases rule: fetch_with_retry_cases [of L a E h url])
  case (found j)
  then show ?thesis using fetch_with_retry_first_success [of j E h url L a] by simp
next
  case exhausted
  then show ?thesis using fetch_with_retry_all_fail [of L a E h url] by simp
qed

lemma fetch_with_retry_shape:
  "\<exists>k. int k \<le> max 0 (maxAttempts L a) \<and>
       snd (fetchWithRetry E L url a h) = h @ attempts_trace (url_text url) (delay L) k"
proof (cases rule: fetch_with_retry_cases [of L a E h url])
  case (found j)
  then have "snd (fetchWithRetry E L url a h) = h @ attempts_trace (url_text url) (delay L) (Suc j)"
    using fetch_with_retry_first_success [of j E h url L a] by simp
  moreover have "int (Suc j) \<le> max 0 (maxAttempts L a)" using found(1) by simp
  ultimately show ?thesis by blast
next
  case exhausted
  then have "snd (fetchWithRetry E L url a h) =
      h @ attempts_trace (url_text url) (delay L) (nat (maxAttempts L a))"
    using fetch_with_retry_all_fail [of L a E h url] by simp
  moreover have "int (nat (maxAttempts L a)) \<le> max 0 (maxAttempts L a)" by simp
  ultimately show ?thesis by blast
qed

lemma attempts_trace_Suc: "attempts_trace u d (Suc k) = failed_attempts u d k @ [Fetch u]"
  by (simp add: attempts_trace_def)

lemma failed_attempts_Suc:
  "failed_attempts u d (Suc k) = failed_attempts u d k @ [Fetch u, wait d (int k + 1)]"
  by (simp add: failed_attempts_def)

lemma failed_attempts_0: "failed_attempts u d 0 = []"
  by (simp add: failed_attempts_def)

lemma attempts_trace_starts: "0 < k \<Longrightarrow> \<exists>es. attempts_trace u d k = Fetch u # es"
proof (cases k)
  case 0
  assume "0 < k" with 0 show ?thesis by simp
next
  case (Suc j)
  have "retry_prefix u d 0 j @ [Fetch u] = Fetch u # tl (retry_prefix u d 0 j @ [Fetch u])"
    by (cases j) simp_all
  then show ?thesis using Suc
    by (auto simp: attempts_trace_def retry_prefix_failed_attempts [symmetric])
qed

lemma fetch_with_retry_at_least_one:
  assumes "0 < maxAttempts L a"
  shows "\<exists>es. snd (fetchWithRetry E L url a h) = h @ Fetch (url_text url) # es"
proof (cases rule: fetch_with_retry_cases [of L a E h url])
  case (found j)
  then have "snd (fetchWithRetry E L url a h) = h @ attempts_trace (url_text url) (delay L) (Suc j)"
    using fetch_with_retry_first_success [of j E h url L a] by simp
  then show ?thesis using attempts_trace_starts [of "Suc j" "url_text url" "delay L"] by auto
next
  case exhausted
  then have "snd (fetchWithRetry E L url a h) =
      h @ attempts_trace (url_text url) (delay L) (nat (maxAttempts L a))"
    using fetch_with_retry_all_fail [of L a E h url] by simp
  then show ?thesis
    using attempts_trace_starts [of "nat (maxAttempts L a)" "url_text url" "delay L"] assms by auto
qed


lemma fetches_append: "fetches (xs @ ys) = fetches xs @ fetches ys"
  by (induction xs rule: fetches.induct) simp_all


lemma fetches_wait: "fetches [wait d k] = []"
  by (simp add: wait_def Let_def)


lemma fetches_failed_attempts: "fetches (failed_attempts u d k) = replicate k u"
proof (induction k)
  case 0
  then show ?case by (simp add: failed_attempts_0)
next
  case (Suc k)
  have "fetches [Fetch u, wait d (int k + 1)] = [u]"
    using fetches_wait [of d "int k + 1"] by simp
  then show ?case using Suc
    by (simp add: failed_attempts_Suc fetches_append replicate_append_same)
qed

lemma fetches_attempts_trace: "fetches (attempts_trace u d k) = replicate k u"
  by (cases k) (simp_all add: attempts_trace_def fetches_append fetches_failed_attempts replicate_append_same)


subsection \<open>The product\<close>

lemma drop_bits_small: "a < 2 ^ 53 \<Longrightarrow> drop_bits a = 0"
  by (subst drop_bits.simps) simp

lemma round_double_small: "a < 2 ^ 53 \<Longrightarrow> round_double a = a"
  by (simp add: round_double_def drop_bits_small)

lemma drop_bits_limit: "drop_bits (2 ^ 53) = Suc 0"
  by (subst drop_bits.simps) (simp add: drop_bits_small)

lemma round_double_limit: "round_double (2 ^ 53) = 2 ^ 53"
  by (simp only: round_double_def drop_bits_limit Let_def) simp

lemma round_double_exact: "a \<le> 2 ^ 53 \<Longrightarrow> round_double a = a"
  using round_double_small [of a] round_double_limit by (cases "a = 2 ^ 53") simp_all

lemma js_times_exact: "\<bar>a * b\<bar> \<le> 2 ^ 53 \<Longrightarrow> js_times a b = a * b"
proof -
  assume b: "\<bar>a * b\<bar> \<le> 2 ^ 53"
  then have "nat \<bar>a * b\<bar> \<le> 2 ^ 53" by (simp add: nat_le_iff)
  then have "round_double (nat \<bar>a * b\<bar>) = nat \<bar>a * b\<bar>" by (rule round_double_exact)
  then show ?thesis by (simp add: js_times_def mult_sgn_abs)
qed

lemma wait_exact: "\<bar>d * k\<bar> \<le> 2 ^ 53 \<Longrightarrow> wait d k = Sleep (d * k)"
proof -
  assume b: "\<bar>d * k\<bar> \<le> 2 ^ 53"
  have "(2::int) ^ 53 < 2 ^ 1024" by simp
  with b have "\<bar>d * k\<bar> < 2 ^ 1024" by linarith
  then show ?thesis using js_times_exact [OF b] by (simp add: wait_def)
qed

lemma wait_1000: "wait 1000 1 = Sleep 1000" "wait 1000 2 = Sleep 2000"
  by (simp_all add: wait_exact)

subsection \<open>Facts about the examples and the attempt count\<close>

lemma ok_200: "ok 200" "\<not> ok 503" "\<not> ok 404" by (simp_all add: ok_def)

lemma default_loader_params:
  "maxAttempts default_loader None = 3" "delay default_loader = 1000"
  by (simp_all add: maxAttempts_def delay_def default_loader_def AssetLoader_def fallback_config_def
      config_retry_attempts_def config_retry_delay_def or_num_def truthy_num_def)

lemma failed_attempts_1: "failed_attempts u d (Suc 0) = [Fetch u, wait d 1]"
  by (simp add: failed_attempts_def)

lemma maxAttempts_falsy: "\<not> truthy_num a \<Longrightarrow> maxAttempts L a = maxAttempts L None"
  by (simp add: maxAttempts_def or_num_def truthy_num_def split: option.splits)

lemma maxAttempts_truthy: "truthy_num a \<Longrightarrow> Some (maxAttempts L a) = a"
  by (auto simp: maxAttempts_def or_num_def truthy_num_def split: option.splits)

lemma maxAttempts_config_falsy:
  "\<not> truthy_num (config_retry_attempts L) \<Longrightarrow> maxAttempts L None = retryAttempts L"
  by (simp add: maxAttempts_def or_num_def truthy_num_def split: option.splits)

lemma maxAttempts_config_truthy:
  "truthy_num (config_retry_attempts L) \<Longrightarrow> Some (maxAttempts L None) = config_retry_attempts L"
  by (auto simp: maxAttempts_def or_num_def truthy_num_def split: option.splits)

lemma maxAttempts_nonzero: "retryAttempts L \<noteq> 0 \<Longrightarrow> maxAttempts L a \<noteq> 0"
  by (auto simp: maxAttempts_def or_num_def truthy_num_def split: option.splits)

lemma loadConfig_retryAttempts: "retryAttempts (fst (snd (loadConfig E cu L h))) = retryAttempts L"
  by (simp add: loadConfig_def Let_def split: sum.splits option.splits)

lemma loadCSS_retryAttempts: "retryAttempts (fst (snd (loadCSS E nm L h))) = retryAttempts L"
  by (simp add: loadCSS_def Let_def split: sum.splits option.splits prod.splits)

lemma two_source_loader_attempts:
  "config_retry_attempts (two_source_loader x y n) = n"
  "retryAttempts (two_source_loader x y n) = 3"
  by (simp_all add: config_retry_attempts_def two_source_loader_def two_source_config_def AssetLoader_def)

subsection \<open>Claims about the retry procedure\<close>

text \<open>
  C7. The retry procedure never throws. When attempt \<open>j\<close> is the first to get a status
  from 200 to 299, it returns the text of that response, and the request of that attempt
  is the last event: no further attempt is made. When none of the \<open>maxAttempts\<close> attempts
  gets such a status, whether by another status or by a network error, it makes all of
  them and returns \<^verbatim>\<open>null\<close>, not an error.
\<close>

theorem retry_fetch_result:
  "(\<exists>r. fst (fetchWithRetry E L url a h) = Inr r)
   \<and> (int j < maxAttempts L a
        \<and> (\<forall>j'<j. \<not> success (respond E (h @ failed_attempts (url_text url) (delay L) j') (url_text url)))
        \<and> success (respond E (h @ failed_attempts (url_text url) (delay L) j) (url_text url))
      \<longrightarrow> fetchWithRetry E L url a h =
            (Inr (Some (body_text (respond E (h @ failed_attempts (url_text url) (delay L) j) (url_text url)))),
             h @ failed_attempts (url_text url) (delay L) j @ [Fetch (url_text url)]))
   \<and> ((\<forall>j. int j < maxAttempts L a \<longrightarrow>
           \<not> success (respond E (h @ failed_attempts (url_text url) (delay L) j) (url_text url)))
      \<longrightarrow> fst (fetchWithRetry E L url a h) = Inr None
          \<and> fetches (snd (fetchWithRetry E L url a h)) =
              fetches h @ replicate (nat (maxAttempts L a)) (url_text url))"
proof (intro conjI impI)
  show "\<exists>r. fst (fetchWithRetry E L url a h) = Inr r"
    by (rule fetch_with_retry_no_throw)
next
  assume a: "int j < maxAttempts L a
        \<and> (\<forall>j'<j. \<not> success (respond E (h @ failed_attempts (url_text url) (delay L) j') (url_text url)))
        \<and> success (respond E (h @ failed_attempts (url_text url) (delay L) j) (url_text url))"
  then show "fetchWithRetry E L url a h =
            (Inr (Some (body_text (respond E (h @ failed_attempts (url_text url) (delay L) j) (url_text url)))),
             h @ failed_attempts (url_text url) (delay L) j @ [Fetch (url_text url)])"
    using fetch_with_retry_first_success [of j E h url L a] by (simp add: attempts_trace_Suc)
next
  assume a: "\<forall>j. int j < maxAttempts L a \<longrightarrow>
           \<not> success (respond E (h @ failed_attempts (url_text url) (delay L) j) (url_text url))"
  then show "fst (fetchWithRetry E L url a h) = Inr None"
    using fetch_with_retry_all_fail [of L a E h url] by simp
  from a show "fetches (snd (fetchWithRetry E L url a h)) =
              fetches h @ replicate (nat (maxAttempts L a)) (url_text url)"
    using fetch_with_retry_all_fail [of L a E h url]
    by (simp add: fetches_append fetches_attempts_trace)
qed

theorem retry_fetch_result_witness:
  "fetchWithRetry (host_flaky ''a{}'' 0) default_loader (Some ''u'') None [] =
     (Inr (Some ''a{}''), [Fetch ''u'', Sleep 1000, Fetch ''u''])
   \<and> fst (fetchWithRetry (host_down 0) default_loader (Some ''u'') None []) = Inr None
   \<and> fetches (snd (fetchWithRetry (host_down 0) default_loader (Some ''u'') None [])) =
       [''u'', ''u'', ''u'']"
proof -
  have "fetchWithRetry (host_flaky ''a{}'' 0) default_loader (Some ''u'') None [] =
     (Inr (Some ''a{}''), [Fetch ''u'', Sleep 1000, Fetch ''u''])"
    using retry_fetch_result [of "host_flaky ''a{}'' 0" default_loader "Some ''u''" None "[]" 1]
    by (simp add: default_loader_params url_text_def host_flaky_def success_def body_text_def
        ok_200 failed_attempts_0 failed_attempts_1 wait_1000)
  moreover have "fst (fetchWithRetry (host_down 0) default_loader (Some ''u'') None []) = Inr None
   \<and> fetches (snd (fetchWithRetry (host_down 0) default_loader (Some ''u'') None [])) =
       [''u'', ''u'', ''u'']"
    using retry_fetch_result [of "host_down 0" default_loader "Some ''u''" None "[]" 0]
    by (simp add: default_loader_params url_text_def host_down_def success_def numeral_3_eq_3)
  ultimately show ?thesis by simp
qed





text \<open>
  C10, as amended. The number of attempts is chosen by a chain of \<^verbatim>\<open>||\<close>: a falsy
  override (absent or 0) gives way to the configured \<^verbatim>\<open>retry_attempts\<close>, and a falsy
  configured value to the field \<^verbatim>\<open>retryAttempts\<close>, which the constructor sets to 3
  and no method changes; so the number is never 0 for such an object. A truthy override
  or configured value is taken as it is. The procedure makes at least one request when
  the number is positive, and none when it is negative.
\<close>

theorem attempt_count:
  "(\<not> truthy_num a \<longrightarrow> maxAttempts L a = maxAttempts L None)
   \<and> (truthy_num a \<longrightarrow> Some (maxAttempts L a) = a)
   \<and> (\<not> truthy_num (config_retry_attempts L) \<longrightarrow> maxAttempts L None = retryAttempts L)
   \<and> (truthy_num (config_retry_attempts L) \<longrightarrow> Some (maxAttempts L None) = config_retry_attempts L)
   \<and> retryAttempts AssetLoader = 3
   \<and> retryAttempts (fst (snd (loadConfig E cu L h))) = retryAttempts L
   \<and> retryAttempts (fst (snd (loadCSS E nm L h))) = retryAttempts L
   \<and> retryAttempts (clearCache L) = retryAttempts L
   \<and> (retryAttempts L \<noteq> 0 \<longrightarrow> maxAttempts L a \<noteq> 0)
   \<and> (0 < maxAttempts L a \<longrightarrow>
        (\<exists>es. snd (fetchWithRetry E L url a h) = h @ Fetch (url_text url) # es))
   \<and> (maxAttempts L a < 0 \<longrightarrow> fetchWithRetry E L url a h = (Inr None, h))"
  using maxAttempts_falsy [of a L] maxAttempts_truthy [of a L] maxAttempts_config_falsy [of L]
    maxAttempts_config_truthy [of L] maxAttempts_nonzero [of L a]
    fetch_with_retry_at_least_one [of L a E url h] fetch_with_retry_none [of L a E url h]
  by (simp add: loadConfig_retryAttempts loadCSS_retryAttempts clearCache_def AssetLoader_def)

theorem attempt_count_witness:
  "maxAttempts (two_source_loader (Some ''u'') None (Some 0)) (Some 0) = 3
   \<and> (\<exists>es. snd (fetchWithRetry (host_down 0) (two_source_loader (Some ''u'') None (Some 0))
               (Some ''u'') (Some 0) []) = Fetch ''u'' # es)
   \<and> maxAttempts (two_source_loader (Some ''u'') None (Some 5)) (Some 2) = 2
   \<and> maxAttempts (two_source_loader (Some ''u'') None (Some 5)) None = 5
   \<and> fetchWithRetry (host_down 0) (two_source_loader (Some ''u'') None (Some 5))
        (Some ''u'') (Some (- 2)) [] = (Inr None, [])"
proof -
  have a: "maxAttempts (two_source_loader (Some ''u'') None (Some 0)) (Some 0) = 3"
    using attempt_count [of "Some 0" "two_source_loader (Some ''u'') None (Some 0)"]
    by (simp add: truthy_num_def two_source_loader_attempts)
  then have b: "\<exists>es. snd (fetchWithRetry (host_down 0) (two_source_loader (Some ''u'') None (Some 0))
               (Some ''u'') (Some 0) []) = Fetch ''u'' # es"
    using attempt_count [of "Some 0" "two_source_loader (Some ''u'') None (Some 0)" "host_down 0"
        _ "[]" _ "Some ''u''"]
    by (simp add: url_text_def)
  have c: "maxAttempts (two_source_loader (Some ''u'') None (Some 5)) (Some 2) = 2"
    using attempt_count [of "Some 2" "two_source_loader (Some ''u'') None (Some 5)"]
    by (simp add: truthy_num_def)
  have d: "maxAttempts (two_source_loader (Some ''u'') None (Some 5)) None = 5"
    using attempt_count [of None "two_source_loader (Some ''u'') None (Some 5)"]
    by (simp add: truthy_num_def two_source_loader_attempts)
  have e: "maxAttempts (two_source_loader (Some ''u'') None (Some 5)) (Some (- 2)) = - 2"
    using attempt_count [of "Some (- 2)" "two_source_loader (Some ''u'') None (Some 5)"]
    by (simp add: truthy_num_def)
  have f: "fetchWithRetry (host_down 0) (two_source_loader (Some ''u'') None (Some 5))
        (Some ''u'') (Some (- 2)) [] = (Inr None, [])"
    using attempt_count [of "Some (- 2)" "two_source_loader (Some ''u'') None (Some 5)" "host_down 0"
        _ "[]" _ "Some ''u''"] e
    by simp
  from a b c d f show ?thesis by simp
qed

text \<open>The claim as it was stated fails: an override or a configured value of \<open>- 1\<close> is
  truthy, the loop body never runs, and no request is made although the host would answer.\<close>

theorem attempt_count_counterexample:
  "fetchWithRetry (host_answering 200 ''a{}'' None 0) default_loader (Some ''u'') (Some (- 1)) [] =
     (Inr None, [])
   \<and> fetchWithRetry (host_answering 200 ''a{}'' None 0)
        (two_source_loader (Some ''u'') None (Some (- 1))) (Some ''u'') None [] = (Inr None, [])"
proof -
  have "maxAttempts default_loader (Some (- 1)) = - 1"
    by (simp add: maxAttempts_def or_num_def truthy_num_def)
  moreover have "maxAttempts (two_source_loader (Some ''u'') None (Some (- 1))) None = - 1"
    by (simp add: maxAttempts_def or_num_def truthy_num_def two_source_loader_attempts)
  ultimately show ?thesis
    by (simp add: fetch_with_retry_none)
qed

subsection \<open>\<^verbatim>\<open>loadCSS\<close>, \<^verbatim>\<open>loadConfig\<close> and \<^verbatim>\<open>checkForUpdates\<close>\<close>

lemma host_down_fetch:
  "fetchWithRetry (host_down T) L url a h =
     (Inr None, h @ attempts_trace (url_text url) (delay L) (nat (maxAttempts L a)))"
  by (rule fetch_with_retry_all_fail) (simp add: host_down_def success_def)

lemma host_answering_fetch:
  assumes "0 < maxAttempts L a" "ok st"
  shows "fetchWithRetry (host_answering st t js T) L url a h = (Inr (Some t), h @ [Fetch (url_text url)])"
  using fetch_with_retry_first_success [of 0 "host_answering st t js T" h url L a] assms
  by (simp add: host_answering_def success_def body_text_def failed_attempts_0 attempts_trace_Suc)

lemma two_source_loader_params:
  "config (two_source_loader x y n) = JObj (two_source_config x y n)"
  "delay (two_source_loader x y n) = 1000"
  "cache (two_source_loader x y n) = Map.empty"
  by (simp_all add: two_source_loader_def two_source_config_def AssetLoader_def delay_def
      config_retry_delay_def or_num_def truthy_num_def)

lemma cached_loader_params:
  "config (cached_loader x y n s t) = JObj (two_source_config x y n)"
  "delay (cached_loader x y n s t) = 1000"
  "maxAttempts (cached_loader x y n s t) a = maxAttempts (two_source_loader x y n) a"
  "cache (cached_loader x y n s t) ''css_sheet'' = Some \<lparr>content = s, timestamp = t\<rparr>"
  by (simp_all add: cached_loader_def two_source_loader_def two_source_config_def AssetLoader_def
      delay_def maxAttempts_def config_retry_attempts_def config_retry_delay_def or_num_def truthy_num_def
      split: option.splits)

lemma two_source_config_fields:
  "css_entry (two_source_config x y n) ''sheet'' =
     Inr (Some \<lparr>github_raw = x, github_pages = y, fallback = None\<rparr>)"
  "cdn_config (two_source_config x y n) =
     Some \<lparr>primary_host = Some ''github_raw'', cache_duration = Some 300000,
        retry_attempts = n, retry_delay = Some 1000\<rparr>"
  "version (two_source_config x y n) = Some ''2.0.0''"
  "update_check_url (two_source_config x y n) = Some ''https://example.org/config.json''"
  by (simp_all add: two_source_config_def css_entry_def)

lemma loadCSS_not_configured:
  "\<not> truthy (config L) \<Longrightarrow>
     loadCSS E name L h = (Inl (Error ''Config not loaded. Call loadConfig() first.''), L, h)"
  by (simp add: loadCSS_def)

lemma loadCSS_not_found:
  "config L = JObj c \<Longrightarrow> assets c = Some a \<Longrightarrow> css a = Some entries \<Longrightarrow>
   entries name = None \<Longrightarrow> name \<notin> set object_prototype \<Longrightarrow>
     loadCSS E name L h =
       (Inl (Error (''CSS asset '' @ [CHR 0x27] @ name @ [CHR 0x27] @ '' not found in config'')), L, h)"
  by (simp add: loadCSS_def css_entry_def)

lemma not_inherited: "''nonexistent'' \<notin> set object_prototype"
  by (simp add: object_prototype_def)

text \<open>
  C6, as amended. \<^verbatim>\<open>loadCSS\<close> throws its error \<^verbatim>\<open>Config not loaded\<close> when no
  configuration is set (or the one that is set is falsy), and its error
  \<^verbatim>\<open>CSS asset ... not found in config\<close> when \<^verbatim>\<open>assets.css\<close> of the configuration is an
  object that has no entry of that name and the name is not one that objects inherit
  from \<^verbatim>\<open>Object.prototype\<close>. In both cases the history is the one it was called with,
  so no request was made, and the object is unchanged.
\<close>

theorem load_css_preconditions:
  "(\<not> truthy (config L) \<longrightarrow>
      loadCSS E name L h = (Inl (Error ''Config not loaded. Call loadConfig() first.''), L, h))
   \<and> (config L = JObj c \<and> assets c = Some a \<and> css a = Some entries \<and> entries name = None
        \<and> name \<notin> set object_prototype \<longrightarrow>
        loadCSS E name L h =
          (Inl (Error (''CSS asset '' @ [CHR 0x27] @ name @ [CHR 0x27] @ '' not found in config'')),
           L, h))"
  using loadCSS_not_configured [of L E name h] loadCSS_not_found [of L c a entries name E h]
  by blast

theorem load_css_preconditions_witness:
  "loadCSS (host_answering 200 ''a{}'' None 0) ''popup'' AssetLoader [] =
     (Inl (Error ''Config not loaded. Call loadConfig() first.''), AssetLoader, [])
   \<and> loadCSS (host_answering 200 ''a{}'' None 0) ''nonexistent'' default_loader [] =
     (Inl (Error ''CSS asset 'nonexistent' not found in config''), default_loader, [])"
proof -
  have "loadCSS (host_answering 200 ''a{}'' None 0) ''popup'' AssetLoader [] =
     (Inl (Error ''Config not loaded. Call loadConfig() first.''), AssetLoader, [])"
    using load_css_preconditions [of AssetLoader "host_answering 200 ''a{}'' None 0" "''popup''" "[]"]
    by (simp add: AssetLoader_def)
  moreover have "loadCSS (host_answering 200 ''a{}'' None 0) ''nonexistent'' default_loader [] =
     (Inl (Error ''CSS asset 'nonexistent' not found in config''), default_loader, [])"
    using load_css_preconditions [of default_loader "host_answering 200 ''a{}'' None 0"
        "''nonexistent''" "[]" fallback_config
        "\<lparr>css = Some [''popup'' \<mapsto>
          \<lparr>github_raw = Some ''https://raw.githubusercontent.com/pokessniper/pokesnipe-assets/main/styles/popup.css'',
           github_pages = None, fallback = Some ''inline''\<rparr>]\<rparr>"
        "[''popup'' \<mapsto>
          \<lparr>github_raw = Some ''https://raw.githubusercontent.com/pokessniper/pokesnipe-assets/main/styles/popup.css'',
           github_pages = None, fallback = Some ''inline''\<rparr>]"]
    by (simp add: default_loader_def fallback_config_def not_inherited)
  ultimately show ?thesis by simp
qed

lemma loadCSS_error_keeps_object:
  "fst (loadCSS E name L h) = Inl e \<Longrightarrow> fst (snd (loadCSS E name L h)) = L"
  by (auto simp: loadCSS_def Let_def split: option.splits sum.splits prod.splits if_splits)

text \<open>
  C9. When \<^verbatim>\<open>loadCSS\<close> fails, in particular with \<^verbatim>\<open>Failed to load CSS\<close> after every
  source was tried, the object and so its cache are exactly what they were before the
  call: no entry is created, and a stale entry keeps its content and its time stamp.
\<close>

theorem failed_load_keeps_cache:
  "fst (loadCSS E name L h) = Inl e \<Longrightarrow>
     fst (snd (loadCSS E name L h)) = L \<and> cache (fst (snd (loadCSS E name L h))) = cache L"
  using loadCSS_error_keeps_object [of E name L h e] by simp


lemma fetch_sources_primary:
  assumes "fetchWithRetry E L (or_str (github_raw sc) (github_pages sc)) None h = (Inr r1, h1)"
    and "truthy_str r1 \<or> \<not> (truthy_str (github_raw sc) \<and> truthy_str (github_pages sc))"
  shows "fetch_sources E L sc h = (Inr r1, h1)"
  using assms by (auto simp: fetch_sources_def Let_def)

lemma fetch_sources_fallback:
  assumes "fetchWithRetry E L (or_str (github_raw sc) (github_pages sc)) None h = (Inr r1, h1)"
    and "\<not> truthy_str r1" "truthy_str (github_raw sc)" "truthy_str (github_pages sc)"
  shows "fetch_sources E L sc h = fetchWithRetry E L (github_pages sc) None h1"
  using assms by (auto simp: fetch_sources_def Let_def or_str_def)

lemma loadCSS_miss_stored:
  assumes "config L = JObj c" "css_entry c name = Inr (Some sc)"
    and "cache_check E L c (''css_'' @ name) h = Inr None"
    and "fetch_sources E L sc h = (Inr (Some s), h2)" "s \<noteq> []"
  shows "loadCSS E name L h =
           (Inr s, L\<lparr>cache := (cache L)(''css_'' @ name \<mapsto> \<lparr>content = s, timestamp = now E h2\<rparr>)\<rparr>, h2)"
  using assms by (simp add: loadCSS_def Let_def)

lemma loadCSS_miss_failed:
  assumes "config L = JObj c" "css_entry c name = Inr (Some sc)"
    and "cache_check E L c (''css_'' @ name) h = Inr None"
    and "fetch_sources E L sc h = (Inr r, h2)" "\<not> truthy_str r"
  shows "loadCSS E name L h = (Inl (Error (''Failed to load CSS: '' @ name)), L, h2)"
  using assms by (simp add: loadCSS_def Let_def truthy_str_def split: option.splits)

lemma cached_loader_stale:
  "300000 \<le> now E h - t \<Longrightarrow>
     cache_check E (cached_loader x y n s t) (two_source_config x y n) ''css_sheet'' h = Inr None"
  by (simp add: cache_check_def cached_loader_params two_source_config_fields)

lemma host_clock: "now (host_down T) h = T" "now (host_answering st t js T) h = T"
  "now (host_only u t T) h = T" "now (host_flaky t T) h = T"
  by (simp_all add: host_down_def host_answering_def host_only_def host_flaky_def)

text \<open>The claim as it was stated fails: \<open>constructor\<close> is no entry of the embedded
  configuration, but every object inherits a member of that name, so the guard passes
  and the address \<^verbatim>\<open>undefined\<close> is requested.\<close>

theorem load_css_preconditions_counterexample:
  "loadCSS (host_down 0) ''constructor'' default_loader [] =
     (Inl (Error ''Failed to load CSS: constructor''), default_loader,
      [Fetch ''undefined'', Sleep 1000, Fetch ''undefined'', Sleep 2000, Fetch ''undefined''])"
proof -
  have entry: "css_entry fallback_config ''constructor'' = Inr (Some inherited_member)"
    by (simp add: css_entry_def fallback_config_def object_prototype_def)
  have src: "fetch_sources (host_down 0) default_loader inherited_member [] =
      (Inr None, [] @ attempts_trace (url_text (or_str (github_raw inherited_member)
         (github_pages inherited_member))) (delay default_loader)
         (nat (maxAttempts default_loader None)))"
    by (rule fetch_sources_primary [OF host_down_fetch])
      (simp add: truthy_str_def inherited_member_def)
  have miss: "cache_check (host_down 0) default_loader fallback_config (''css_'' @ ''constructor'') [] =
      Inr None"
    by (simp add: cache_check_def default_loader_def AssetLoader_def)
  have "loadCSS (host_down 0) ''constructor'' default_loader [] =
      (Inl (Error (''Failed to load CSS: '' @ ''constructor'')), default_loader,
       [] @ attempts_trace (url_text (or_str (github_raw inherited_member)
         (github_pages inherited_member))) (delay default_loader)
         (nat (maxAttempts default_loader None)))"
    by (rule loadCSS_miss_failed [OF _ entry miss src])
      (simp_all add: default_loader_def truthy_str_def)
  moreover have "[0..<2] = [0, Suc 0]" by (simp add: numeral_2_eq_2)
  ultimately show ?thesis
    by (simp add: default_loader_params inherited_member_def or_str_def truthy_str_def url_text_def
        attempts_trace_def failed_attempts_def wait_1000)
qed

theorem failed_load_keeps_cache_witness:
  "fst (loadCSS (host_down 400000) ''sheet'' (cached_loader (Some ''u'') None (Some 2) ''old'' 0) []) =
     Inl (Error ''Failed to load CSS: sheet'')
   \<and> fst (snd (loadCSS (host_down 400000) ''sheet''
          (cached_loader (Some ''u'') None (Some 2) ''old'' 0) [])) =
       cached_loader (Some ''u'') None (Some 2) ''old'' 0
   \<and> cache (fst (snd (loadCSS (host_down 400000) ''sheet''
          (cached_loader (Some ''u'') None (Some 2) ''old'' 0) []))) ''css_sheet'' =
       Some \<lparr>content = ''old'', timestamp = 0\<rparr>"
proof -
  let ?L = "cached_loader (Some ''u'') None (Some 2) ''old'' 0"
  let ?sc = "\<lparr>github_raw = Some ''u'', github_pages = None, fallback = None\<rparr>"
  have src: "fetch_sources (host_down 400000) ?L ?sc [] =
      (Inr None, [] @ attempts_trace (url_text (or_str (github_raw ?sc) (github_pages ?sc)))
         (delay ?L) (nat (maxAttempts ?L None)))"
    by (rule fetch_sources_primary [OF host_down_fetch]) (simp add: truthy_str_def)
  have stale: "cache_check (host_down 400000) ?L (two_source_config (Some ''u'') None (Some 2))
      (''css_'' @ ''sheet'') [] = Inr None"
    using cached_loader_stale [where E = "host_down 400000" and h = "[]" and t = 0]
    by (simp add: host_clock)
  have "loadCSS (host_down 400000) ''sheet'' ?L [] =
      (Inl (Error (''Failed to load CSS: '' @ ''sheet'')), ?L,
       [] @ attempts_trace (url_text (or_str (github_raw ?sc) (github_pages ?sc)))
         (delay ?L) (nat (maxAttempts ?L None)))"
    by (rule loadCSS_miss_failed [OF _ _ stale src])
      (simp_all add: cached_loader_params two_source_config_fields truthy_str_def)
  then have failed: "fst (loadCSS (host_down 400000) ''sheet'' ?L []) =
      Inl (Error ''Failed to load CSS: sheet'')"
    by simp
  show ?thesis
    using failed failed_load_keeps_cache [OF failed]
    by (simp add: cached_loader_params)
qed


lemma loadConfig_stores:
  "\<exists>v. fst (loadConfig E url L h) = Inr v \<and> config (fst (snd (loadConfig E url L h))) = v"
  by (simp add: loadConfig_def Let_def split: sum.splits option.splits)

lemma loadConfig_remote:
  "respond E h url = Response st txt (Some v) \<Longrightarrow> ok st \<Longrightarrow>
     loadConfig E url L h = (Inr v, L\<lparr>config := v\<rparr>, h @ [Fetch url])"
  by (simp add: loadConfig_def loadConfig_try_def)

lemma loadConfig_default:
  "respond E h url = NetError \<or> (\<exists>st txt js. respond E h url = Response st txt js \<and> \<not> ok st)
     \<or> (\<exists>st txt. respond E h url = Response st txt None) \<Longrightarrow>
   loadConfig E url L h =
     (Inr (JObj fallback_config), L\<lparr>config := JObj fallback_config\<rparr>, h @ [Fetch url])"
  by (auto simp: loadConfig_def loadConfig_try_def)

lemma fallback_config_fields:
  "version fallback_config = Some ''1.0.0''"
  "assets fallback_config =
     Some \<lparr>css = Some [''popup'' \<mapsto>
       \<lparr>github_raw =
          Some ''https://raw.githubusercontent.com/pokessniper/pokesnipe-assets/main/styles/popup.css'',
        github_pages = None, fallback = Some ''inline''\<rparr>]\<rparr>"
  "cdn_config fallback_config =
     Some \<lparr>primary_host = Some ''github_raw'', cache_duration = Some 300000,
       retry_attempts = Some 3, retry_delay = Some 1000\<rparr>"
  "update_check_url fallback_config = None"
  by (simp_all add: fallback_config_def)

text \<open>
  C4, as amended. \<^verbatim>\<open>loadConfig\<close> never throws: whatever the request gives, it returns
  the value that it stores in the object. A response with a status from 200 to 299
  whose body decodes gives the decoded value, unchecked, whether it is a configuration
  or not; a network error, another status or a body that does not decode give the
  embedded configuration, whose version is \<open>1.0.0\<close>, whose only style sheet is \<open>popup\<close>
  with the single source \<^verbatim>\<open>github_raw\<close>, and whose cache duration, attempts and delay
  are 300000, 3 and 1000.
\<close>

theorem load_config_never_fails:
  "(\<exists>v. fst (loadConfig E url L h) = Inr v \<and> config (fst (snd (loadConfig E url L h))) = v)
   \<and> (respond E h url = Response st txt (Some v) \<and> ok st \<longrightarrow>
        loadConfig E url L h = (Inr v, L\<lparr>config := v\<rparr>, h @ [Fetch url]))
   \<and> (respond E h url = NetError \<or> (respond E h url = Response st txt js \<and> \<not> ok st)
        \<or> respond E h url = Response st txt None \<longrightarrow>
        loadConfig E url L h =
          (Inr (JObj fallback_config), L\<lparr>config := JObj fallback_config\<rparr>, h @ [Fetch url]))
   \<and> version fallback_config = Some ''1.0.0''
   \<and> assets fallback_config =
       Some \<lparr>css = Some [''popup'' \<mapsto>
         \<lparr>github_raw =
            Some ''https://raw.githubusercontent.com/pokessniper/pokesnipe-assets/main/styles/popup.css'',
          github_pages = None, fallback = Some ''inline''\<rparr>]\<rparr>
   \<and> cdn_config fallback_config =
       Some \<lparr>primary_host = Some ''github_raw'', cache_duration = Some 300000,
         retry_attempts = Some 3, retry_delay = Some 1000\<rparr>"
proof -
  have a: "\<exists>v. fst (loadConfig E url L h) = Inr v \<and> config (fst (snd (loadConfig E url L h))) = v"
    by (rule loadConfig_stores)
  have b: "respond E h url = Response st txt (Some v) \<and> ok st \<longrightarrow>
        loadConfig E url L h = (Inr v, L\<lparr>config := v\<rparr>, h @ [Fetch url])"
    using loadConfig_remote [of E h url st "txt" v L] by blast
  have c: "respond E h url = NetError \<or> (respond E h url = Response st txt js \<and> \<not> ok st)
        \<or> respond E h url = Response st txt None \<longrightarrow>
        loadConfig E url L h =
          (Inr (JObj fallback_config), L\<lparr>config := JObj fallback_config\<rparr>, h @ [Fetch url])"
    using loadConfig_default [of E h url L] by blast
  from a b c show ?thesis by (simp only: fallback_config_fields simp_thms)
qed

theorem load_config_never_fails_witness:
  "loadConfig (host_answering 200 ''{}'' (Some (JObj (two_source_config (Some ''u'') None None))) 0)
       ''https://example.org/config.json'' AssetLoader [] =
     (Inr (JObj (two_source_config (Some ''u'') None None)),
      AssetLoader\<lparr>config := JObj (two_source_config (Some ''u'') None None)\<rparr>,
      [Fetch ''https://example.org/config.json''])
   \<and> loadConfig (host_down 0) ''https://example.org/config.json'' AssetLoader [] =
     (Inr (JObj fallback_config), default_loader, [Fetch ''https://example.org/config.json''])
   \<and> loadConfig (host_answering 404 ''Not Found'' None 0) ''https://example.org/config.json''
       AssetLoader [] =
     (Inr (JObj fallback_config), default_loader, [Fetch ''https://example.org/config.json''])
   \<and> loadConfig (host_answering 200 ''{'' None 0) ''https://example.org/config.json''
       AssetLoader [] =
     (Inr (JObj fallback_config), default_loader, [Fetch ''https://example.org/config.json''])"
proof -
  let ?u = "''https://example.org/config.json''"
  let ?c = "JObj (two_source_config (Some ''u'') None None)"
  have "loadConfig (host_answering 200 ''{}'' (Some ?c) 0) ?u AssetLoader [] =
      (Inr ?c, AssetLoader\<lparr>config := ?c\<rparr>, [Fetch ?u])"
    using load_config_never_fails [of "host_answering 200 ''{}'' (Some ?c) 0" "?u" AssetLoader "[]"
        200 "''{}''" "?c"]
    by (simp add: host_answering_def ok_200)
  moreover have "loadConfig (host_down 0) ?u AssetLoader [] =
      (Inr (JObj fallback_config), default_loader, [Fetch ?u])"
    using load_config_never_fails [of "host_down 0" "?u" AssetLoader "[]"]
    by (simp add: host_down_def default_loader_def)
  moreover have "loadConfig (host_answering 404 ''Not Found'' None 0) ?u AssetLoader [] =
      (Inr (JObj fallback_config), default_loader, [Fetch ?u])"
    using load_config_never_fails [of "host_answering 404 ''Not Found'' None 0" "?u" AssetLoader "[]"
        404 "''Not Found''" _ None]
    by (simp add: host_answering_def ok_200 default_loader_def)
  moreover have "loadConfig (host_answering 200 ''{'' None 0) ?u AssetLoader [] =
      (Inr (JObj fallback_config), default_loader, [Fetch ?u])"
    using load_config_never_fails [of "host_answering 200 ''{'' None 0" "?u" AssetLoader "[]"
        200 "''{''"]
    by (simp add: host_answering_def default_loader_def)
  ultimately show ?thesis by simp
qed

text \<open>The claim as it was stated fails: a response with the status 200 and the body
  \<^verbatim>\<open>null\<close> decodes, and \<^verbatim>\<open>loadConfig\<close> returns \<^verbatim>\<open>null\<close> and leaves the configuration
  unset, so that \<^verbatim>\<open>loadCSS\<close> throws \<^verbatim>\<open>Config not loaded\<close> after it.\<close>

theorem load_config_never_fails_counterexample:
  "loadConfig (host_answering 200 ''null'' (Some JNull) 0) ''https://example.org/config.json''
       AssetLoader [] =
     (Inr JNull, AssetLoader, [Fetch ''https://example.org/config.json''])
   \<and> config AssetLoader = JNull
   \<and> loadCSS (host_answering 200 ''null'' (Some JNull) 0) ''popup'' AssetLoader
       [Fetch ''https://example.org/config.json''] =
     (Inl (Error ''Config not loaded. Call loadConfig() first.''), AssetLoader,
      [Fetch ''https://example.org/config.json''])"
  by (simp add: loadConfig_def loadConfig_try_def host_answering_def ok_200 AssetLoader_def
      loadCSS_def)









subsection \<open>The sources of a style sheet and the cache\<close>

lemma host_only_fetch_hit:
  assumes "0 < maxAttempts L a" "url_text url = u"
  shows "fetchWithRetry (host_only u t T) L url a h = (Inr (Some t), h @ [Fetch u])"
  using fetch_with_retry_first_success [of 0 "host_only u t T" h url L a] assms
  by (simp add: host_only_def success_def body_text_def failed_attempts_0 attempts_trace_Suc ok_200)

lemma host_only_fetch_miss:
  assumes "url_text url \<noteq> u"
  shows "fetchWithRetry (host_only u t T) L url a h =
           (Inr None, h @ attempts_trace (url_text url) (delay L) (nat (maxAttempts L a)))"
  by (rule fetch_with_retry_all_fail) (simp add: host_only_def success_def assms ok_200)

lemma fetch_with_retry_extends: "\<exists>es. snd (fetchWithRetry E L url a h) = h @ es"
  using fetch_with_retry_shape [of L a E url h] by blast

lemma fetch_with_retry_some_extends:
  assumes "fetchWithRetry E L url a h = (Inr (Some t), h')"
  shows "\<exists>es. h' = h @ es @ [Fetch (url_text url)]"
proof (cases rule: fetch_with_retry_cases [of L a E h url])
  case (found j)
  then show ?thesis
    using fetch_with_retry_first_success [of j E h url L a] assms
    by (auto simp: attempts_trace_Suc)
next
  case exhausted
  then show ?thesis using fetch_with_retry_all_fail [of L a E h url] assms by simp
qed

lemma fetch_sources_some_extends:
  assumes "fetch_sources E L sc h = (Inr (Some s), h2)"
  shows "h2 \<noteq> h"
proof -
  obtain r1 h1 where p: "fetchWithRetry E L (or_str (github_raw sc) (github_pages sc)) None h = (Inr r1, h1)"
    using fetch_with_retry_no_throw [of E L "or_str (github_raw sc) (github_pages sc)" None h]
    by (metis fst_conv surj_pair)
  obtain es1 where e1: "h1 = h @ es1"
    using fetch_with_retry_extends [of E L "or_str (github_raw sc) (github_pages sc)" None h] p by auto
  show ?thesis
  proof (cases "truthy_str r1 \<or> \<not> (truthy_str (github_raw sc) \<and> truthy_str (github_pages sc))")
    case True
    then have "fetch_sources E L sc h = (Inr r1, h1)" using fetch_sources_primary [OF p] by simp
    then have "fetchWithRetry E L (or_str (github_raw sc) (github_pages sc)) None h = (Inr (Some s), h2)"
      using assms p by simp
    then show ?thesis using fetch_with_retry_some_extends by fastforce
  next
    case False
    then have "fetch_sources E L sc h = fetchWithRetry E L (github_pages sc) None h1"
      using fetch_sources_fallback [OF p] by blast
    then have "fetchWithRetry E L (github_pages sc) None h1 = (Inr (Some s), h2)"
      using assms by simp
    then obtain es where "h2 = h1 @ es @ [Fetch (url_text (github_pages sc))]"
      using fetch_with_retry_some_extends by blast
    then show ?thesis using e1 by simp
  qed
qed

lemma fetch_sources_at_least_one:
  assumes "0 < maxAttempts L None"
  shows "\<exists>es. snd (fetch_sources E L sc h) =
           h @ Fetch (url_text (or_str (github_raw sc) (github_pages sc))) # es"
proof -
  obtain r1 h1 where p: "fetchWithRetry E L (or_str (github_raw sc) (github_pages sc)) None h = (Inr r1, h1)"
    using fetch_with_retry_no_throw [of E L "or_str (github_raw sc) (github_pages sc)" None h]
    by (metis fst_conv surj_pair)
  obtain es1 where e1: "h1 = h @ Fetch (url_text (or_str (github_raw sc) (github_pages sc))) # es1"
    using fetch_with_retry_at_least_one [OF assms, of E "or_str (github_raw sc) (github_pages sc)" h] p
    by auto
  show ?thesis
  proof (cases "truthy_str r1 \<or> \<not> (truthy_str (github_raw sc) \<and> truthy_str (github_pages sc))")
    case True
    then show ?thesis using fetch_sources_primary [OF p] e1 by simp
  next
    case False
    then have "fetch_sources E L sc h = fetchWithRetry E L (github_pages sc) None h1"
      using fetch_sources_fallback [OF p] by blast
    moreover obtain es where "snd (fetchWithRetry E L (github_pages sc) None h1) = h1 @ es"
      using fetch_with_retry_extends by blast
    ultimately show ?thesis using e1 by simp
  qed
qed

lemma loadCSS_hit:
  assumes "config L = JObj c" "css_entry c name = Inr (Some sc)"
    and "cache L (''css_'' @ name) = Some e" "cdn_config c = Some cd" "cache_duration cd = Some dur"
    and "now E h - timestamp e < dur"
  shows "loadCSS E name L h = (Inr (content e), L, h)"
  using assms by (simp add: loadCSS_def cache_check_def)

lemma loadCSS_stale_check:
  assumes "cache L (''css_'' @ name) = Some e" "cdn_config c = Some cd" "cache_duration cd = Some dur"
    and "\<not> now E h - timestamp e < dur"
  shows "cache_check E L c (''css_'' @ name) h = Inr None"
  using assms by (simp add: cache_check_def)

lemma loadCSS_miss_history:
  assumes "config L = JObj c" "css_entry c name = Inr (Some sc)"
    and "cache_check E L c (''css_'' @ name) h = Inr None"
  shows "snd (snd (loadCSS E name L h)) = snd (fetch_sources E L sc h)"
  using assms by (simp add: loadCSS_def Let_def split: prod.splits sum.splits option.splits)

lemma loadCSS_miss_result:
  assumes "config L = JObj c" "css_entry c name = Inr (Some sc)"
    and "cache_check E L c (''css_'' @ name) h = Inr None"
    and "fst (loadCSS E name L h) = Inr s"
  shows "\<exists>h2. fetch_sources E L sc h = (Inr (Some s), h2)"
  using assms by (auto simp: loadCSS_def Let_def split: prod.splits sum.splits option.splits if_splits)

lemma loadCSS_success_entry:
  assumes "loadCSS E name L h = (Inr s, L1, h1)"
  shows "config L1 = config L \<and> (\<exists>e1. cache L1 (''css_'' @ name) = Some e1 \<and> content e1 = s)"
  using assms
  by (auto simp: loadCSS_def cache_check_def Let_def
      split: prod.splits sum.splits option.splits if_splits)

text \<open>
  C8, as amended. On a cache miss, when the retry procedure gives a non-empty text for
  the primary address, or gives nothing for it and a non-empty text for the second
  address while both sources are set, \<^verbatim>\<open>loadCSS\<close> stores that text under
  \<^verbatim>\<open>"css_" + assetName\<close> with the time read after the last request and returns it. When
  every retry procedure that is run gives \<^verbatim>\<open>null\<close> or an empty text, \<^verbatim>\<open>loadCSS\<close> throws
  \<^verbatim>\<open>Failed to load CSS\<close> with the name of the asset and leaves the object unchanged.
\<close>

theorem load_css_outcome:
  assumes "config L = JObj c" and "css_entry c name = Inr (Some sc)"
    and "cache_check E L c (''css_'' @ name) h = Inr None"
    and "fetchWithRetry E L (or_str (github_raw sc) (github_pages sc)) None h = (Inr r1, h1)"
    and "fetchWithRetry E L (github_pages sc) None h1 = (Inr r2, h2)"
  shows "(r1 = Some s \<and> s \<noteq> [] \<longrightarrow>
           loadCSS E name L h =
             (Inr s, L\<lparr>cache := (cache L)(''css_'' @ name \<mapsto>
                \<lparr>content = s, timestamp = now E h1\<rparr>)\<rparr>, h1))
       \<and> (\<not> truthy_str r1 \<and> truthy_str (github_raw sc) \<and> truthy_str (github_pages sc)
            \<and> r2 = Some s \<and> s \<noteq> [] \<longrightarrow>
           loadCSS E name L h =
             (Inr s, L\<lparr>cache := (cache L)(''css_'' @ name \<mapsto>
                \<lparr>content = s, timestamp = now E h2\<rparr>)\<rparr>, h2))
       \<and> (\<not> truthy_str r1 \<and> truthy_str (github_raw sc) \<and> truthy_str (github_pages sc)
            \<and> \<not> truthy_str r2 \<longrightarrow>
           loadCSS E name L h = (Inl (Error (''Failed to load CSS: '' @ name)), L, h2))
       \<and> (\<not> truthy_str r1 \<and> \<not> (truthy_str (github_raw sc) \<and> truthy_str (github_pages sc)) \<longrightarrow>
           loadCSS E name L h = (Inl (Error (''Failed to load CSS: '' @ name)), L, h1))"
proof (intro conjI impI)
  assume a: "r1 = Some s \<and> s \<noteq> []"
  then have "fetch_sources E L sc h = (Inr (Some s), h1)"
    using fetch_sources_primary [OF assms(4)] by (simp add: truthy_str_def)
  then show "loadCSS E name L h =
             (Inr s, L\<lparr>cache := (cache L)(''css_'' @ name \<mapsto>
                \<lparr>content = s, timestamp = now E h1\<rparr>)\<rparr>, h1)"
    using loadCSS_miss_stored [OF assms(1,2,3)] a by simp
next
  assume a: "\<not> truthy_str r1 \<and> truthy_str (github_raw sc) \<and> truthy_str (github_pages sc)
            \<and> r2 = Some s \<and> s \<noteq> []"
  then have "fetch_sources E L sc h = (Inr (Some s), h2)"
    using fetch_sources_fallback [OF assms(4)] assms(5) by simp
  then show "loadCSS E name L h =
             (Inr s, L\<lparr>cache := (cache L)(''css_'' @ name \<mapsto>
                \<lparr>content = s, timestamp = now E h2\<rparr>)\<rparr>, h2)"
    using loadCSS_miss_stored [OF assms(1,2,3)] a by simp
next
  assume a: "\<not> truthy_str r1 \<and> truthy_str (github_raw sc) \<and> truthy_str (github_pages sc)
            \<and> \<not> truthy_str r2"
  then have "fetch_sources E L sc h = (Inr r2, h2)"
    using fetch_sources_fallback [OF assms(4)] assms(5) by simp
  then show "loadCSS E name L h = (Inl (Error (''Failed to load CSS: '' @ name)), L, h2)"
    using loadCSS_miss_failed [OF assms(1,2,3)] a by simp
next
  assume a: "\<not> truthy_str r1 \<and> \<not> (truthy_str (github_raw sc) \<and> truthy_str (github_pages sc))"
  then have "fetch_sources E L sc h = (Inr r1, h1)"
    using fetch_sources_primary [OF assms(4)] by simp
  then show "loadCSS E name L h = (Inl (Error (''Failed to load CSS: '' @ name)), L, h1)"
    using loadCSS_miss_failed [OF assms(1,2,3)] a by simp
qed

lemma two_source_loader_miss:
  "cache_check E (two_source_loader x y n) (two_source_config x y n) k h = Inr None"
  by (simp add: cache_check_def two_source_loader_params)

lemma two_source_loader_count:
  "maxAttempts (two_source_loader x y (Some 2)) None = 2"
  "maxAttempts (two_source_loader x y None) None = 3"
  "maxAttempts (two_source_loader x y (Some (- 1))) None = - 1"
  by (simp_all add: maxAttempts_def two_source_loader_attempts or_num_def truthy_num_def)

lemma attempts_trace_2: "attempts_trace u 1000 2 = [Fetch u, Sleep 1000, Fetch u]"
  by (simp add: attempts_trace_def failed_attempts_def numeral_2_eq_2 wait_1000)

theorem load_css_outcome_witness:
  "loadCSS (host_answering 200 ''a{}'' None 7) ''sheet'' (two_source_loader (Some ''u'') None (Some 2)) [] =
     (Inr ''a{}'',
      (two_source_loader (Some ''u'') None (Some 2))
        \<lparr>cache := [''css_sheet'' \<mapsto> \<lparr>content = ''a{}'', timestamp = 7\<rparr>]\<rparr>,
      [Fetch ''u''])
   \<and> loadCSS (host_only ''v'' ''b{}'' 7) ''sheet'' (two_source_loader (Some ''u'') (Some ''v'') (Some 2)) [] =
     (Inr ''b{}'',
      (two_source_loader (Some ''u'') (Some ''v'') (Some 2))
        \<lparr>cache := [''css_sheet'' \<mapsto> \<lparr>content = ''b{}'', timestamp = 7\<rparr>]\<rparr>,
      [Fetch ''u'', Sleep 1000, Fetch ''u'', Fetch ''v''])
   \<and> loadCSS (host_down 7) ''sheet'' (two_source_loader (Some ''u'') (Some ''v'') (Some 2)) [] =
     (Inl (Error ''Failed to load CSS: sheet''), two_source_loader (Some ''u'') (Some ''v'') (Some 2),
      [Fetch ''u'', Sleep 1000, Fetch ''u'', Fetch ''v'', Sleep 1000, Fetch ''v''])
   \<and> loadCSS (host_down 7) ''sheet'' (two_source_loader None (Some ''v'') (Some 2)) [] =
     (Inl (Error ''Failed to load CSS: sheet''), two_source_loader None (Some ''v'') (Some 2),
      [Fetch ''v'', Sleep 1000, Fetch ''v''])"
proof -
  let ?L1 = "two_source_loader (Some ''u'') None (Some 2)"
  let ?L2 = "two_source_loader (Some ''u'') (Some ''v'') (Some 2)"
  let ?L3 = "two_source_loader None (Some ''v'') (Some 2)"
  have 1: "loadCSS (host_answering 200 ''a{}'' None 7) ''sheet'' ?L1 [] =
     (Inr ''a{}'', ?L1\<lparr>cache := [''css_sheet'' \<mapsto> \<lparr>content = ''a{}'', timestamp = 7\<rparr>]\<rparr>,
      [Fetch ''u''])"
    using load_css_outcome [of ?L1 "two_source_config (Some ''u'') None (Some 2)" "''sheet''"
        "\<lparr>github_raw = Some ''u'', github_pages = None, fallback = None\<rparr>"
        "host_answering 200 ''a{}'' None 7" "[]" "Some ''a{}''" "[Fetch ''u'']"
        "Some ''a{}''" "[Fetch ''u'', Fetch ''undefined'']" "''a{}''"]
    by (simp add: two_source_loader_params two_source_config_fields two_source_loader_miss
        host_answering_fetch two_source_loader_count ok_200 or_str_def truthy_str_def url_text_def
        host_clock)
  have 2: "loadCSS (host_only ''v'' ''b{}'' 7) ''sheet'' ?L2 [] =
     (Inr ''b{}'', ?L2\<lparr>cache := [''css_sheet'' \<mapsto> \<lparr>content = ''b{}'', timestamp = 7\<rparr>]\<rparr>,
      [Fetch ''u'', Sleep 1000, Fetch ''u'', Fetch ''v''])"
    using load_css_outcome [of ?L2 "two_source_config (Some ''u'') (Some ''v'') (Some 2)" "''sheet''"
        "\<lparr>github_raw = Some ''u'', github_pages = Some ''v'', fallback = None\<rparr>"
        "host_only ''v'' ''b{}'' 7" "[]" None "[Fetch ''u'', Sleep 1000, Fetch ''u'']"
        "Some ''b{}''" "[Fetch ''u'', Sleep 1000, Fetch ''u'', Fetch ''v'']" "''b{}''"]
    by (simp add: two_source_loader_params two_source_config_fields two_source_loader_miss
        host_only_fetch_hit host_only_fetch_miss two_source_loader_count or_str_def truthy_str_def
        url_text_def host_clock attempts_trace_2)
  have 3: "loadCSS (host_down 7) ''sheet'' ?L2 [] =
     (Inl (Error ''Failed to load CSS: sheet''), ?L2,
      [Fetch ''u'', Sleep 1000, Fetch ''u'', Fetch ''v'', Sleep 1000, Fetch ''v''])"
    using load_css_outcome [of ?L2 "two_source_config (Some ''u'') (Some ''v'') (Some 2)" "''sheet''"
        "\<lparr>github_raw = Some ''u'', github_pages = Some ''v'', fallback = None\<rparr>"
        "host_down 7" "[]" None "[Fetch ''u'', Sleep 1000, Fetch ''u'']"
        None "[Fetch ''u'', Sleep 1000, Fetch ''u'', Fetch ''v'', Sleep 1000, Fetch ''v'']"]
    by (simp add: two_source_loader_params two_source_config_fields two_source_loader_miss
        host_down_fetch two_source_loader_count or_str_def truthy_str_def
        url_text_def attempts_trace_2)
  have 4: "loadCSS (host_down 7) ''sheet'' ?L3 [] =
     (Inl (Error ''Failed to load CSS: sheet''), ?L3, [Fetch ''v'', Sleep 1000, Fetch ''v''])"
    using load_css_outcome [of ?L3 "two_source_config None (Some ''v'') (Some 2)" "''sheet''"
        "\<lparr>github_raw = None, github_pages = Some ''v'', fallback = None\<rparr>"
        "host_down 7" "[]" None "[Fetch ''v'', Sleep 1000, Fetch ''v'']"
        None "[Fetch ''v'', Sleep 1000, Fetch ''v'', Fetch ''v'', Sleep 1000, Fetch ''v'']"]
    by (simp add: two_source_loader_params two_source_config_fields two_source_loader_miss
        host_down_fetch two_source_loader_count or_str_def truthy_str_def
        url_text_def attempts_trace_2)
  from 1 2 3 4 show ?thesis by simp
qed

text \<open>The claim as it was stated fails: a response with the status 200 and an empty body
  makes the retry procedure return the empty text, which \<^verbatim>\<open>loadCSS\<close> tests as falsy; it
  stores nothing and throws.\<close>

theorem load_css_outcome_counterexample:
  "fetchWithRetry (host_answering 200 [] None 7) (two_source_loader (Some ''u'') None (Some 2))
       (Some ''u'') None [] = (Inr (Some []), [Fetch ''u''])
   \<and> loadCSS (host_answering 200 [] None 7) ''sheet'' (two_source_loader (Some ''u'') None (Some 2)) [] =
       (Inl (Error ''Failed to load CSS: sheet''), two_source_loader (Some ''u'') None (Some 2),
        [Fetch ''u''])"
proof -
  let ?L = "two_source_loader (Some ''u'') None (Some 2)"
  let ?sc = "\<lparr>github_raw = Some ''u'', github_pages = None, fallback = None\<rparr>"
  let ?E = "host_answering 200 [] None 7"
  have f: "fetchWithRetry ?E ?L (Some ''u'') None [] = (Inr (Some []), [Fetch ''u''])"
    by (simp add: host_answering_fetch two_source_loader_count ok_200 url_text_def)
  then have "fetch_sources ?E ?L ?sc [] = (Inr (Some []), [Fetch ''u''])"
    by (intro fetch_sources_primary) (simp_all add: or_str_def truthy_str_def)
  then have "loadCSS ?E ''sheet'' ?L [] =
      (Inl (Error (''Failed to load CSS: '' @ ''sheet'')), ?L, [Fetch ''u''])"
    by (intro loadCSS_miss_failed [where c = "two_source_config (Some ''u'') None (Some 2)"
          and sc = ?sc and r = "Some []"])
      (simp_all add: two_source_loader_params two_source_config_fields two_source_loader_miss
        truthy_str_def)
  with f show ?thesis by simp
qed

lemma fetch_with_retry_always_failing:
  assumes "\<forall>h'. \<not> success (respond E h' (url_text url))"
  shows "fetchWithRetry E L url a h =
           (Inr None, h @ attempts_trace (url_text url) (delay L) (nat (maxAttempts L a)))"
  by (rule fetch_with_retry_all_fail) (simp add: assms)

lemma fetch_with_retry_always_answering:
  assumes "\<forall>h'. success (respond E h' (url_text url)) \<and> body_text (respond E h' (url_text url)) = t"
    and "0 < maxAttempts L a"
  shows "fetchWithRetry E L url a h = (Inr (Some t), h @ [Fetch (url_text url)])"
  using fetch_with_retry_first_success [of 0 E h url L a] assms
  by (simp add: failed_attempts_0 attempts_trace_Suc)

text \<open>
  C1, as amended. On a cache miss, when the retry procedure gives no content (\<^verbatim>\<open>null\<close> or
  an empty text) for the primary address, a second retry procedure is run exactly when
  both \<^verbatim>\<open>github_raw\<close> and \<^verbatim>\<open>github_pages\<close> are set, whether they differ or not. The
  primary address is then \<^verbatim>\<open>github_raw\<close> and the second run targets
  \<^verbatim>\<open>github_pages\<close>, the other address when the two differ. When \<open>P\<close> fails at every
  attempt and \<open>S\<close> answers with a non-empty text, \<^verbatim>\<open>loadCSS\<close> returns that text after
  \<open>maxAttempts\<close> requests to \<open>P\<close>, with their waits, and one request to \<open>S\<close>.
\<close>

theorem fallback_source:
  assumes "config L = JObj c" and "css_entry c name = Inr (Some sc)"
    and "cache_check E L c (''css_'' @ name) h = Inr None"
  shows "(fetchWithRetry E L (or_str (github_raw sc) (github_pages sc)) None h = (Inr r1, h1)
            \<and> \<not> truthy_str r1 \<longrightarrow>
          snd (snd (loadCSS E name L h)) =
            (if truthy_str (github_raw sc) \<and> truthy_str (github_pages sc)
             then snd (fetchWithRetry E L (github_pages sc) None h1) else h1))
       \<and> (truthy_str (github_raw sc) \<longrightarrow> or_str (github_raw sc) (github_pages sc) = github_raw sc)
       \<and> (github_raw sc = Some P \<and> github_pages sc = Some S \<and> P \<noteq> [] \<and> S \<noteq> []
            \<and> (\<forall>h'. \<not> success (respond E h' P))
            \<and> (\<forall>h'. success (respond E h' S) \<and> body_text (respond E h' S) = t)
            \<and> t \<noteq> [] \<and> 0 < maxAttempts L None \<longrightarrow>
          loadCSS E name L h =
            (Inr t,
             L\<lparr>cache := (cache L)(''css_'' @ name \<mapsto>
                \<lparr>content = t,
                 timestamp = now E (h @ attempts_trace P (delay L) (nat (maxAttempts L None)) @ [Fetch S])\<rparr>)\<rparr>,
             h @ attempts_trace P (delay L) (nat (maxAttempts L None)) @ [Fetch S])
          \<and> fetches (snd (snd (loadCSS E name L h))) =
              fetches h @ replicate (nat (maxAttempts L None)) P @ [S])"
proof (intro conjI impI)
  assume a: "fetchWithRetry E L (or_str (github_raw sc) (github_pages sc)) None h = (Inr r1, h1)
            \<and> \<not> truthy_str r1"
  show "snd (snd (loadCSS E name L h)) =
            (if truthy_str (github_raw sc) \<and> truthy_str (github_pages sc)
             then snd (fetchWithRetry E L (github_pages sc) None h1) else h1)"
  proof (cases "truthy_str (github_raw sc) \<and> truthy_str (github_pages sc)")
    case True
    then have "fetch_sources E L sc h = fetchWithRetry E L (github_pages sc) None h1"
      using fetch_sources_fallback [of E L sc h r1 h1] a by blast
    then show ?thesis using True loadCSS_miss_history [OF assms] by simp
  next
    case False
    then have "fetch_sources E L sc h = (Inr r1, h1)"
      using fetch_sources_primary [of E L sc h r1 h1] a by blast
    then have "snd (snd (loadCSS E name L h)) = h1"
      using loadCSS_miss_history [OF assms] by simp
    then show ?thesis by (subst if_not_P [OF False])
  qed
next
  assume "truthy_str (github_raw sc)"
  then show "or_str (github_raw sc) (github_pages sc) = github_raw sc"
    by (simp add: or_str_def)
next
  assume a: "github_raw sc = Some P \<and> github_pages sc = Some S \<and> P \<noteq> [] \<and> S \<noteq> []
            \<and> (\<forall>h'. \<not> success (respond E h' P))
            \<and> (\<forall>h'. success (respond E h' S) \<and> body_text (respond E h' S) = t)
            \<and> t \<noteq> [] \<and> 0 < maxAttempts L None"
  let ?h1 = "h @ attempts_trace P (delay L) (nat (maxAttempts L None))"
  have prim: "or_str (github_raw sc) (github_pages sc) = Some P"
    using a by (simp add: or_str_def truthy_str_def)
  have first: "fetchWithRetry E L (or_str (github_raw sc) (github_pages sc)) None h = (Inr None, ?h1)"
    unfolding prim using fetch_with_retry_always_failing [of E "Some P" L None h] a
    by (simp add: url_text_def)
  have second: "fetchWithRetry E L (github_pages sc) None ?h1 = (Inr (Some t), ?h1 @ [Fetch S])"
    using fetch_with_retry_always_answering [of E "Some S" t L None ?h1] a
    by (simp add: url_text_def)
  have "fetch_sources E L sc h = (Inr (Some t), ?h1 @ [Fetch S])"
    using fetch_sources_fallback [OF first] second a by (simp add: truthy_str_def)
  then have run: "loadCSS E name L h =
      (Inr t, L\<lparr>cache := (cache L)(''css_'' @ name \<mapsto>
         \<lparr>content = t, timestamp = now E (?h1 @ [Fetch S])\<rparr>)\<rparr>, ?h1 @ [Fetch S])"
    using loadCSS_miss_stored [OF assms] a by simp
  then show "loadCSS E name L h =
            (Inr t,
             L\<lparr>cache := (cache L)(''css_'' @ name \<mapsto>
                \<lparr>content = t,
                 timestamp = now E (h @ attempts_trace P (delay L) (nat (maxAttempts L None)) @ [Fetch S])\<rparr>)\<rparr>,
             h @ attempts_trace P (delay L) (nat (maxAttempts L None)) @ [Fetch S])"
    by simp
  show "fetches (snd (snd (loadCSS E name L h))) =
              fetches h @ replicate (nat (maxAttempts L None)) P @ [S]"
    unfolding run by (simp add: fetches_append fetches_attempts_trace)
qed

lemma replicate_2: "replicate 2 x = [x, x]"
  by (simp add: numeral_2_eq_2)

lemma host_only_success:
  "success (respond (host_only u t T) h v) = (v = u)"
  "v = u \<Longrightarrow> body_text (respond (host_only u t T) h v) = t"
  by (simp_all add: host_only_def success_def body_text_def ok_200)

theorem fallback_source_witness:
  "loadCSS (host_only ''v'' ''b{}'' 7) ''sheet'' (two_source_loader (Some ''u'') (Some ''v'') (Some 2)) [] =
     (Inr ''b{}'',
      (two_source_loader (Some ''u'') (Some ''v'') (Some 2))
        \<lparr>cache := [''css_sheet'' \<mapsto> \<lparr>content = ''b{}'', timestamp = 7\<rparr>]\<rparr>,
      [Fetch ''u'', Sleep 1000, Fetch ''u'', Fetch ''v''])
   \<and> fetches (snd (snd (loadCSS (host_only ''v'' ''b{}'' 7) ''sheet''
         (two_source_loader (Some ''u'') (Some ''v'') (Some 2)) []))) = [''u'', ''u'', ''v'']
   \<and> snd (snd (loadCSS (host_down 7) ''sheet'' (two_source_loader (Some ''u'') None (Some 2)) [])) =
       [Fetch ''u'', Sleep 1000, Fetch ''u'']
   \<and> snd (snd (loadCSS (host_down 7) ''sheet'' (two_source_loader (Some ''u'') (Some ''v'') (Some 2)) [])) =
       [Fetch ''u'', Sleep 1000, Fetch ''u'', Fetch ''v'', Sleep 1000, Fetch ''v'']"
proof -
  let ?L1 = "two_source_loader (Some ''u'') None (Some 2)"
  let ?L2 = "two_source_loader (Some ''u'') (Some ''v'') (Some 2)"
  have 1: "loadCSS (host_only ''v'' ''b{}'' 7) ''sheet'' ?L2 [] =
     (Inr ''b{}'', ?L2\<lparr>cache := [''css_sheet'' \<mapsto> \<lparr>content = ''b{}'', timestamp = 7\<rparr>]\<rparr>,
      [Fetch ''u'', Sleep 1000, Fetch ''u'', Fetch ''v''])
     \<and> fetches (snd (snd (loadCSS (host_only ''v'' ''b{}'' 7) ''sheet'' ?L2 []))) =
       [''u'', ''u'', ''v'']"
    using fallback_source [of ?L2 "two_source_config (Some ''u'') (Some ''v'') (Some 2)" "''sheet''"
        "\<lparr>github_raw = Some ''u'', github_pages = Some ''v'', fallback = None\<rparr>"
        "host_only ''v'' ''b{}'' 7" "[]" None "[Fetch ''u'', Sleep 1000, Fetch ''u'']"
        "''u''" "''v''" "''b{}''"]
    by (simp add: two_source_loader_params two_source_config_fields two_source_loader_miss
        two_source_loader_count host_only_success host_clock attempts_trace_2 replicate_2)
  have 2: "snd (snd (loadCSS (host_down 7) ''sheet'' ?L1 [])) = [Fetch ''u'', Sleep 1000, Fetch ''u'']"
    using fallback_source [of ?L1 "two_source_config (Some ''u'') None (Some 2)" "''sheet''"
        "\<lparr>github_raw = Some ''u'', github_pages = None, fallback = None\<rparr>"
        "host_down 7" "[]" None "[Fetch ''u'', Sleep 1000, Fetch ''u'']"]
    by (simp add: two_source_loader_params two_source_config_fields two_source_loader_miss
        two_source_loader_count host_down_fetch or_str_def truthy_str_def url_text_def
        attempts_trace_2)
  have 3: "snd (snd (loadCSS (host_down 7) ''sheet'' ?L2 [])) =
      [Fetch ''u'', Sleep 1000, Fetch ''u'', Fetch ''v'', Sleep 1000, Fetch ''v'']"
    using fallback_source [of ?L2 "two_source_config (Some ''u'') (Some ''v'') (Some 2)" "''sheet''"
        "\<lparr>github_raw = Some ''u'', github_pages = Some ''v'', fallback = None\<rparr>"
        "host_down 7" "[]" None "[Fetch ''u'', Sleep 1000, Fetch ''u'']"]
    by (simp add: two_source_loader_params two_source_config_fields two_source_loader_miss
        two_source_loader_count host_down_fetch or_str_def truthy_str_def url_text_def
        attempts_trace_2)
  from 1 2 3 show ?thesis by simp
qed

text \<open>The claim as it was stated fails: with the same address in both sources and the
  network down, one retry procedure makes two requests, and \<^verbatim>\<open>loadCSS\<close> makes four.\<close>

theorem fallback_source_counterexample:
  "snd (fetchWithRetry (host_down 7) (two_source_loader (Some ''u'') (Some ''u'') (Some 2))
         (Some ''u'') None []) = [Fetch ''u'', Sleep 1000, Fetch ''u'']
   \<and> loadCSS (host_down 7) ''sheet'' (two_source_loader (Some ''u'') (Some ''u'') (Some 2)) [] =
       (Inl (Error ''Failed to load CSS: sheet''), two_source_loader (Some ''u'') (Some ''u'') (Some 2),
        [Fetch ''u'', Sleep 1000, Fetch ''u'', Fetch ''u'', Sleep 1000, Fetch ''u''])"
proof -
  let ?L = "two_source_loader (Some ''u'') (Some ''u'') (Some 2)"
  let ?sc = "\<lparr>github_raw = Some ''u'', github_pages = Some ''u'', fallback = None\<rparr>"
  have f: "\<And>h. fetchWithRetry (host_down 7) ?L (Some ''u'') None h =
      (Inr None, h @ [Fetch ''u'', Sleep 1000, Fetch ''u''])"
    by (simp add: host_down_fetch two_source_loader_count two_source_loader_params url_text_def
        attempts_trace_2)
  have "fetch_sources (host_down 7) ?L ?sc [] =
      fetchWithRetry (host_down 7) ?L (github_pages ?sc) None [Fetch ''u'', Sleep 1000, Fetch ''u'']"
    by (rule fetch_sources_fallback [where ?r1.0 = None])
      (simp_all add: f or_str_def truthy_str_def)
  then have "fetch_sources (host_down 7) ?L ?sc [] =
      (Inr None, [Fetch ''u'', Sleep 1000, Fetch ''u'', Fetch ''u'', Sleep 1000, Fetch ''u''])"
    by (simp add: f)
  then have "loadCSS (host_down 7) ''sheet'' ?L [] =
      (Inl (Error (''Failed to load CSS: '' @ ''sheet'')), ?L,
       [Fetch ''u'', Sleep 1000, Fetch ''u'', Fetch ''u'', Sleep 1000, Fetch ''u''])"
    by (intro loadCSS_miss_failed [where c = "two_source_config (Some ''u'') (Some ''u'') (Some 2)"
          and sc = ?sc and r = None])
      (simp_all add: two_source_loader_params two_source_config_fields two_source_loader_miss
        truthy_str_def)
  then show ?thesis using f [of "[]"] by simp
qed

lemma loadCSS_stale_not_cached:
  assumes "config L = JObj c" "css_entry c name = Inr (Some sc)"
    and "cache L (''css_'' @ name) = Some e" "cdn_config c = Some cd" "cache_duration cd = Some dur"
    and "\<not> now E h - timestamp e < dur"
  shows "\<not> (\<exists>s. fst (loadCSS E name L h) = Inr s \<and> snd (snd (loadCSS E name L h)) = h)"
proof
  assume "\<exists>s. fst (loadCSS E name L h) = Inr s \<and> snd (snd (loadCSS E name L h)) = h"
  then obtain s where s: "fst (loadCSS E name L h) = Inr s" "snd (snd (loadCSS E name L h)) = h"
    by blast
  have miss: "cache_check E L c (''css_'' @ name) h = Inr None"
    by (rule loadCSS_stale_check [OF assms(3,4,5,6)])
  obtain h2 where h2: "fetch_sources E L sc h = (Inr (Some s), h2)"
    using loadCSS_miss_result [OF assms(1,2) miss s(1)] by blast
  then have "h2 \<noteq> h" by (rule fetch_sources_some_extends)
  moreover have "h2 = h"
    using loadCSS_miss_history [OF assms(1,2) miss] h2 s(2) by simp
  ultimately show False by simp
qed

text \<open>
  C2, as amended. For an asset of the configuration that has a cache entry, where the
  configuration gives a cache duration, \<^verbatim>\<open>loadCSS\<close> returns the cached content without
  any request exactly when \<^verbatim>\<open>now - timestamp < cache_duration\<close> at the call. Once the
  duration has elapsed the next call starts with a request to the primary address,
  provided the number of attempts is positive. A call that returned a content leaves an
  entry with that content, and a later call made while
  \<^verbatim>\<open>now - timestamp < cache_duration\<close> holds for that entry returns the same content
  without any request.
\<close>

theorem cache_expiry:
  assumes "config L = JObj c" and "css_entry c name = Inr (Some sc)"
    and "cdn_config c = Some cd" and "cache_duration cd = Some dur"
  shows "(cache L (''css_'' @ name) = Some e \<longrightarrow>
           ((fst (loadCSS E name L h) = Inr (content e) \<and> snd (snd (loadCSS E name L h)) = h)
              \<longleftrightarrow> now E h - timestamp e < dur)
           \<and> (now E h - timestamp e < dur \<longrightarrow> loadCSS E name L h = (Inr (content e), L, h))
           \<and> (dur \<le> now E h - timestamp e \<and> 0 < maxAttempts L None \<longrightarrow>
                (\<exists>es. snd (snd (loadCSS E name L h)) =
                   h @ Fetch (url_text (or_str (github_raw sc) (github_pages sc))) # es)))
       \<and> (loadCSS E name L h = (Inr s, L1, h1) \<longrightarrow>
           (\<exists>e1. cache L1 (''css_'' @ name) = Some e1 \<and> content e1 = s
              \<and> (now E h2 - timestamp e1 < dur \<longrightarrow> loadCSS E name L1 h2 = (Inr s, L1, h2))))"
proof (intro conjI impI)
  assume e: "cache L (''css_'' @ name) = Some e"
  show "(fst (loadCSS E name L h) = Inr (content e) \<and> snd (snd (loadCSS E name L h)) = h)
      \<longleftrightarrow> now E h - timestamp e < dur"
  proof
    assume "fst (loadCSS E name L h) = Inr (content e) \<and> snd (snd (loadCSS E name L h)) = h"
    then show "now E h - timestamp e < dur"
      using loadCSS_stale_not_cached [OF assms(1,2) e assms(3,4), of E h] by blast
  next
    assume "now E h - timestamp e < dur"
    then show "fst (loadCSS E name L h) = Inr (content e) \<and> snd (snd (loadCSS E name L h)) = h"
      using loadCSS_hit [OF assms(1,2) e assms(3,4)] by simp
  qed
next
  assume "cache L (''css_'' @ name) = Some e" and "now E h - timestamp e < dur"
  then show "loadCSS E name L h = (Inr (content e), L, h)"
    using loadCSS_hit [OF assms(1,2) _ assms(3,4)] by blast
next
  assume e: "cache L (''css_'' @ name) = Some e"
    and st: "dur \<le> now E h - timestamp e \<and> 0 < maxAttempts L None"
  have miss: "cache_check E L c (''css_'' @ name) h = Inr None"
    using loadCSS_stale_check [OF e assms(3,4), of E h] st by simp
  show "\<exists>es. snd (snd (loadCSS E name L h)) =
      h @ Fetch (url_text (or_str (github_raw sc) (github_pages sc))) # es"
    using fetch_sources_at_least_one [of L E sc h] st loadCSS_miss_history [OF assms(1,2) miss]
    by simp
next
  assume run: "loadCSS E name L h = (Inr s, L1, h1)"
  obtain e1 where e1: "config L1 = config L" "cache L1 (''css_'' @ name) = Some e1" "content e1 = s"
    using loadCSS_success_entry [OF run] by blast
  have "now E h2 - timestamp e1 < dur \<longrightarrow> loadCSS E name L1 h2 = (Inr s, L1, h2)"
    using loadCSS_hit [of L1 c name sc e1 cd dur E h2] e1 assms by simp
  with e1 show "\<exists>e1. cache L1 (''css_'' @ name) = Some e1 \<and> content e1 = s
      \<and> (now E h2 - timestamp e1 < dur \<longrightarrow> loadCSS E name L1 h2 = (Inr s, L1, h2))"
    by blast
qed

lemma example_first_load:
  "loadCSS (host_answering 200 ''new'' None T) ''sheet'' (two_source_loader (Some ''u'') None (Some 2)) [] =
     (Inr ''new'',
      (two_source_loader (Some ''u'') None (Some 2))
        \<lparr>cache := [''css_sheet'' \<mapsto> \<lparr>content = ''new'', timestamp = T\<rparr>]\<rparr>,
      [Fetch ''u''])"
proof -
  let ?L = "two_source_loader (Some ''u'') None (Some 2)"
  let ?sc = "\<lparr>github_raw = Some ''u'', github_pages = None, fallback = None\<rparr>"
  let ?E = "host_answering 200 ''new'' None T"
  have "fetchWithRetry ?E ?L (or_str (github_raw ?sc) (github_pages ?sc)) None [] =
      (Inr (Some ''new''), [Fetch ''u''])"
    by (simp add: host_answering_fetch two_source_loader_count ok_200 url_text_def or_str_def
        truthy_str_def)
  then have "fetch_sources ?E ?L ?sc [] = (Inr (Some ''new''), [Fetch ''u''])"
    by (rule fetch_sources_primary) (simp add: truthy_str_def)
  then have "loadCSS ?E ''sheet'' ?L [] =
      (Inr ''new'',
       ?L\<lparr>cache := (cache ?L)(''css_'' @ ''sheet'' \<mapsto>
          \<lparr>content = ''new'', timestamp = now ?E [Fetch ''u'']\<rparr>)\<rparr>, [Fetch ''u''])"
    by (intro loadCSS_miss_stored [where c = "two_source_config (Some ''u'') None (Some 2)"
          and sc = ?sc])
      (simp_all add: two_source_loader_params two_source_config_fields two_source_loader_miss)
  then show ?thesis by (simp add: host_clock two_source_loader_params)
qed

theorem cache_expiry_witness:
  "loadCSS (host_answering 200 ''new'' None 299999) ''sheet''
       (cached_loader (Some ''u'') None (Some 2) ''old'' 0) [] =
     (Inr ''old'', cached_loader (Some ''u'') None (Some 2) ''old'' 0, [])
   \<and> (\<exists>es. snd (snd (loadCSS (host_answering 200 ''new'' None 300000) ''sheet''
               (cached_loader (Some ''u'') None (Some 2) ''old'' 0) [])) = Fetch ''u'' # es)
   \<and> loadCSS (host_answering 200 ''new'' None 5) ''sheet''
       ((two_source_loader (Some ''u'') None (Some 2))
          \<lparr>cache := [''css_sheet'' \<mapsto> \<lparr>content = ''new'', timestamp = 5\<rparr>]\<rparr>)
       [Fetch ''u'', Fetch ''w''] =
     (Inr ''new'',
      (two_source_loader (Some ''u'') None (Some 2))
        \<lparr>cache := [''css_sheet'' \<mapsto> \<lparr>content = ''new'', timestamp = 5\<rparr>]\<rparr>,
      [Fetch ''u'', Fetch ''w''])"
proof -
  let ?c = "two_source_config (Some ''u'') None (Some 2)"
  let ?sc = "\<lparr>github_raw = Some ''u'', github_pages = None, fallback = None\<rparr>"
  let ?cd = "\<lparr>primary_host = Some ''github_raw'', cache_duration = Some 300000,
        retry_attempts = Some 2, retry_delay = Some 1000\<rparr>"
  let ?K = "cached_loader (Some ''u'') None (Some 2) ''old'' 0"
  let ?L = "two_source_loader (Some ''u'') None (Some 2)"
  let ?L1 = "?L\<lparr>cache := [''css_sheet'' \<mapsto> \<lparr>content = ''new'', timestamp = 5\<rparr>]\<rparr>"
  have 1: "loadCSS (host_answering 200 ''new'' None 299999) ''sheet'' ?K [] = (Inr ''old'', ?K, [])"
    using cache_expiry [of ?K ?c "''sheet''" ?sc ?cd 300000
        "\<lparr>content = ''old'', timestamp = 0\<rparr>" "host_answering 200 ''new'' None 299999" "[]"]
    by (simp add: cached_loader_params two_source_config_fields host_clock)
  have 2: "\<exists>es. snd (snd (loadCSS (host_answering 200 ''new'' None 300000) ''sheet'' ?K [])) =
      Fetch ''u'' # es"
    using cache_expiry [of ?K ?c "''sheet''" ?sc ?cd 300000
        "\<lparr>content = ''old'', timestamp = 0\<rparr>" "host_answering 200 ''new'' None 300000" "[]"]
    by (simp add: cached_loader_params two_source_config_fields host_clock two_source_loader_count
        or_str_def truthy_str_def url_text_def)
  have first: "loadCSS (host_answering 200 ''new'' None 5) ''sheet'' ?L [] =
      (Inr ''new'', ?L1, [Fetch ''u''])"
    by (rule example_first_load)
  have 3: "loadCSS (host_answering 200 ''new'' None 5) ''sheet'' ?L1 [Fetch ''u'', Fetch ''w''] =
      (Inr ''new'', ?L1, [Fetch ''u'', Fetch ''w''])"
    using cache_expiry [of ?L ?c "''sheet''" ?sc ?cd 300000 _
        "host_answering 200 ''new'' None 5" "[]" "''new''" ?L1 "[Fetch ''u'']"
        "[Fetch ''u'', Fetch ''w'']"] first
    by (simp add: two_source_loader_params two_source_config_fields host_clock)
  from 1 2 3 show ?thesis by simp
qed

text \<open>The claim as it was stated fails: with a configured \<^verbatim>\<open>retry_attempts\<close> of \<open>- 1\<close> and
  an entry older than the cache duration, \<^verbatim>\<open>loadCSS\<close> throws without any request although
  the host would answer.\<close>

theorem cache_expiry_counterexample:
  "300000 \<le> now (host_answering 200 ''new'' None 400000) [] - 0
   \<and> cache (cached_loader (Some ''u'') None (Some (- 1)) ''old'' 0) ''css_sheet'' =
       Some \<lparr>content = ''old'', timestamp = 0\<rparr>
   \<and> loadCSS (host_answering 200 ''new'' None 400000) ''sheet''
       (cached_loader (Some ''u'') None (Some (- 1)) ''old'' 0) [] =
     (Inl (Error ''Failed to load CSS: sheet''),
      cached_loader (Some ''u'') None (Some (- 1)) ''old'' 0, [])"
proof -
  let ?K = "cached_loader (Some ''u'') None (Some (- 1)) ''old'' 0"
  let ?sc = "\<lparr>github_raw = Some ''u'', github_pages = None, fallback = None\<rparr>"
  let ?E = "host_answering 200 ''new'' None 400000"
  have "fetchWithRetry ?E ?K (or_str (github_raw ?sc) (github_pages ?sc)) None [] = (Inr None, [])"
    by (rule fetch_with_retry_none) (simp add: cached_loader_params two_source_loader_count)
  then have "fetch_sources ?E ?K ?sc [] = (Inr None, [])"
    by (rule fetch_sources_primary) (simp add: truthy_str_def)
  then have "loadCSS ?E ''sheet'' ?K [] = (Inl (Error (''Failed to load CSS: '' @ ''sheet'')), ?K, [])"
    by (intro loadCSS_miss_failed [where c = "two_source_config (Some ''u'') None (Some (- 1))"
          and sc = ?sc and r = None])
      (simp_all add: cached_loader_params two_source_config_fields cached_loader_stale host_clock
        truthy_str_def)
  then show ?thesis by (simp add: host_clock cached_loader_params)
qed

end
